theory Spec2Isabelle
  imports Main
begin

section \<open>Go values the package works with\<close>

text \<open>
  A Go string is a sequence of bytes, here a \<^typ>\<open>char list\<close> (a HOL character is one
  byte). A Go slice is either nil or a (possibly empty) sequence; the two differ on the
  wire (\<open>null\<close> against \<open>[]\<close>), so the embedding keeps them apart.
\<close>

datatype 'a slice = nil_slice | Slice "'a list"

fun elems :: "'a slice \<Rightarrow> 'a list" where
  "elems nil_slice = []"
| "elems (Slice xs) = xs"

definition len :: "'a slice \<Rightarrow> nat" where
  "len s = length (elems s)"

datatype panic = nil_dereference | slice_bounds_out_of_range nat nat

text \<open>The slice expression \<open>s[lo:]\<close>: a run-time panic when \<open>lo\<close> exceeds \<open>len(s)\<close>.\<close>

definition slice_from :: "nat \<Rightarrow> 'a slice \<Rightarrow> panic + 'a slice" where
  "slice_from lo s =
     (if len s < lo then Inl (slice_bounds_out_of_range lo (len s))
      else Inr (case s of nil_slice \<Rightarrow> nil_slice | Slice xs \<Rightarrow> Slice (drop lo xs)))"

text \<open>
  Values of the interface type \<open>error\<close> that occur here: the package's own
  \<open>AlbertError\<close>, which wraps an error and carries an exit code, and every other error
  (those built by \<open>fmt.Errorf\<close>, those of a writer or of the author's code), of which only
  the message matters. The type assertion \<open>err.(AlbertError)\<close> succeeds on the first kind
  and on no other.
\<close>

datatype error = errorString string | AlbertError error int

fun Error :: "error \<Rightarrow> string" where
  "Error (errorString s) = s"
| "Error (AlbertError e c) = Error e"

text \<open>Decimal rendering of an integer, as the verb \<open>%d\<close> prints it.\<close>

fun digits :: "nat \<Rightarrow> string" where
  "digits n =
     (if n < 10 then [''0123456789'' ! n]
      else digits (n div 10) @ [''0123456789'' ! (n mod 10)])"

definition itoa :: "int \<Rightarrow> string" where
  "itoa i = (if i < 0 then ''-'' @ digits (nat (- i)) else digits (nat i))"

section \<open>Data model\<close>

record QueryAction =
  Name :: string
  Command :: string
  Arguments :: "string slice"

record QueryItem =
  ID :: string
  Name :: string
  Description :: string
  Completion :: string
  Icon :: string
  Actions :: "QueryAction slice"

record QueryResult =
  Items :: "QueryItem slice"

record Metadata =
  IID :: string
  Name :: string
  Version :: string
  Author :: string
  Dependencies :: "string slice"
  Trigger :: string

text \<open>The fields of \<open>exec.Cmd\<close> that the package reads.\<close>

record Cmd =
  Path :: string
  Args :: "string slice"

type_synonym AlbertOp = string

definition OpMetadata :: AlbertOp where "OpMetadata = ''METADATA''"
definition OpName :: AlbertOp where "OpName = ''NAME''"
definition OpInitialize :: AlbertOp where "OpInitialize = ''INITIALIZE''"
definition OpFinalize :: AlbertOp where "OpFinalize = ''FINALIZE''"
definition OpSetupSession :: AlbertOp where "OpSetupSession = ''SETUPSESSION''"
definition OpTeardownSession :: AlbertOp where "OpTeardownSession = ''TEARDOWNSESSION''"
definition OpQuery :: AlbertOp where "OpQuery = ''QUERY''"

definition recognized_ops :: "AlbertOp list" where
  "recognized_ops =
     [OpMetadata, OpName, OpInitialize, OpFinalize, OpSetupSession, OpTeardownSession, OpQuery]"

definition defaultProtocolVersion :: string where
  "defaultProtocolVersion = ''org.albert.extension.external/v2.0''"

definition protocolVersion :: string where
  "protocolVersion = ''org.albert.extension.external/v2.0''"

section \<open>The action constructor\<close>

text \<open>
  \<open>NewQueryAction\<close> as the two later revisions of \<open>albert.go\<close> have it
  (\<open>Arguments: cmd.Args[1:]\<close>). The command is passed by pointer; reading a field
  through a nil pointer panics, and so does the slice expression on an empty vector.
\<close>

definition NewQueryAction :: "string \<Rightarrow> Cmd option \<Rightarrow> panic + QueryAction" where
  "NewQueryAction name cmd =
     (case cmd of
        None \<Rightarrow> Inl nil_dereference
      | Some c \<Rightarrow>
          (case slice_from 1 (Args c) of
             Inl p \<Rightarrow> Inl p
           | Inr args \<Rightarrow>
               Inr \<lparr>QueryAction.Name = name, Command = Path c, Arguments = args\<rparr>))"

text \<open>The first revision of the file (\<open>Arguments: cmd.Args\<close>).\<close>

definition NewQueryAction_v0 :: "string \<Rightarrow> Cmd option \<Rightarrow> panic + QueryAction" where
  "NewQueryAction_v0 name cmd =
     (case cmd of
        None \<Rightarrow> Inl nil_dereference
      | Some c \<Rightarrow>
          Inr \<lparr>QueryAction.Name = name, Command = Path c, Arguments = Args c\<rparr>)"

section \<open>The wire encoding (\<open>encoding/json\<close>)\<close>

text \<open>
  The package hands its values to Go's \<open>encoding/json\<close>, which is no part of the
  repository. The functions of this section follow that library for the four struct types
  of the data model: an object per struct, the fields in declaration order under their
  \<open>json:\<close> tags, no white space, a nil slice as \<open>null\<close>, and strings escaped as
  \<open>appendString\<close> does with HTML escaping on (the default of \<open>Marshal\<close> and of
  \<open>Encoder\<close>). Releases of Go differ in how they write backspace and form feed (the
  two-character escape or the six-character one); the embedding takes the current form.
\<close>

definition byte :: "char \<Rightarrow> nat" where
  "byte c = of_char c"

definition RuneError :: nat where
  "RuneError = 0xFFFD"

definition cont :: "char \<Rightarrow> bool" where
  "cont c \<longleftrightarrow> 0x80 \<le> byte c \<and> byte c \<le> 0xBF"

text \<open>
  \<open>utf8.DecodeRuneInString\<close>: the first code point of the string and the number of bytes
  it takes, \<open>(RuneError, 1)\<close> when the string does not start with a well-formed, shortest
  encoding of a code point that is in range and no surrogate.
\<close>

fun DecodeRuneInString :: "string \<Rightarrow> nat \<times> nat" where
  "DecodeRuneInString [] = (RuneError, 0)"
| "DecodeRuneInString (c0 # cs) =
     (let b0 = byte c0 in
      if b0 < 0x80 then (b0, 1)
      else if 0xC2 \<le> b0 \<and> b0 \<le> 0xDF then
        (case cs of
           c1 # _ \<Rightarrow>
             if cont c1 then (b0 mod 32 * 64 + byte c1 mod 64, 2) else (RuneError, 1)
         | _ \<Rightarrow> (RuneError, 1))
      else if 0xE0 \<le> b0 \<and> b0 \<le> 0xEF then
        (case cs of
           c1 # c2 # _ \<Rightarrow>
             if (if b0 = 0xE0 then 0xA0 else 0x80) \<le> byte c1
                \<and> byte c1 \<le> (if b0 = 0xED then 0x9F else 0xBF) \<and> cont c2
             then (b0 mod 16 * 4096 + byte c1 mod 64 * 64 + byte c2 mod 64, 3)
             else (RuneError, 1)
         | _ \<Rightarrow> (RuneError, 1))
      else if 0xF0 \<le> b0 \<and> b0 \<le> 0xF4 then
        (case cs of
           c1 # c2 # c3 # _ \<Rightarrow>
             if (if b0 = 0xF0 then 0x90 else 0x80) \<le> byte c1
                \<and> byte c1 \<le> (if b0 = 0xF4 then 0x8F else 0xBF) \<and> cont c2 \<and> cont c3
             then (b0 mod 8 * 262144 + byte c1 mod 64 * 4096 + byte c2 mod 64 * 64
                   + byte c3 mod 64, 4)
             else (RuneError, 1)
         | _ \<Rightarrow> (RuneError, 1))
      else (RuneError, 1))"

definition hex :: "nat \<Rightarrow> char" where
  "hex n = ''0123456789abcdef'' ! n"

text \<open>\<open>htmlSafeSet\<close>: the ASCII bytes that are written as they are.\<close>

definition htmlSafe :: "char \<Rightarrow> bool" where
  "htmlSafe c \<longleftrightarrow>
     0x20 \<le> byte c \<and> byte c < 0x80
     \<and> c \<notin> {CHR 0x22, CHR 0x5C, CHR ''<'', CHR ''>'', CHR ''&''}"

text \<open>The escape of an ASCII byte that is not in \<open>htmlSafeSet\<close>.\<close>

definition escape_ascii :: "char \<Rightarrow> string" where
  "escape_ascii c =
     (if c = CHR 0x5C \<or> c = CHR 0x22 then [CHR 0x5C, c]
      else if c = CHR 0x08 then [CHR 0x5C, CHR ''b'']
      else if c = CHR 0x0C then [CHR 0x5C, CHR ''f'']
      else if c = CHR 0x0A then [CHR 0x5C, CHR ''n'']
      else if c = CHR 0x0D then [CHR 0x5C, CHR ''r'']
      else if c = CHR 0x09 then [CHR 0x5C, CHR ''t'']
      else [CHR 0x5C, CHR ''u'', CHR ''0'', CHR ''0'', hex (byte c div 16), hex (byte c mod 16)])"

text \<open>
  The loop of \<open>appendString\<close> between the two quotes: safe ASCII is copied, other ASCII
  escaped, a byte that starts no valid UTF-8 sequence becomes the escape of U+FFFD, U+2028 and U+2029
  are escaped, and every other code point is copied with all its bytes.
\<close>

fun appendString_body :: "string \<Rightarrow> string" where
  "appendString_body [] = []"
| "appendString_body (c # cs) =
     (if byte c < 0x80 then
        (if htmlSafe c then c # appendString_body cs
         else escape_ascii c @ appendString_body cs)
      else
        (let r = fst (DecodeRuneInString (c # cs));
             size = snd (DecodeRuneInString (c # cs)) in
         if r = RuneError \<and> size = 1 then
           [CHR 0x5C, CHR ''u'', CHR ''f'', CHR ''f'', CHR ''f'', CHR ''d'']
           @ appendString_body cs
         else if r = 0x2028 \<or> r = 0x2029 then
           [CHR 0x5C, CHR ''u'', CHR ''2'', CHR ''0'', CHR ''2'', hex (r mod 16)]
           @ appendString_body (drop (size - 1) cs)
         else c # take (size - 1) cs @ appendString_body (drop (size - 1) cs)))"

definition appendString :: "string \<Rightarrow> string" where
  "appendString s = [CHR 0x22] @ appendString_body s @ [CHR 0x22]"

fun commas :: "string list \<Rightarrow> string" where
  "commas [] = []"
| "commas [x] = x"
| "commas (x # y # ys) = x @ '','' @ commas (y # ys)"

definition encode_array :: "('a \<Rightarrow> string) \<Rightarrow> 'a slice \<Rightarrow> string" where
  "encode_array enc s =
     (case s of
        nil_slice \<Rightarrow> ''null''
      | Slice xs \<Rightarrow> ''['' @ commas (map enc xs) @ '']'')"

definition encode_QueryAction :: "QueryAction \<Rightarrow> string" where
  \<open>encode_QueryAction a =
     ''{"name":'' @ appendString (QueryAction.Name a)
     @ '',"command":'' @ appendString (Command a)
     @ '',"arguments":'' @ encode_array appendString (Arguments a) @ ''}''\<close>

definition encode_QueryItem :: "QueryItem \<Rightarrow> string" where
  \<open>encode_QueryItem i =
     ''{"id":'' @ appendString (ID i)
     @ '',"name":'' @ appendString (QueryItem.Name i)
     @ '',"description":'' @ appendString (Description i)
     @ '',"completion":'' @ appendString (Completion i)
     @ '',"icon":'' @ appendString (Icon i)
     @ '',"actions":'' @ encode_array encode_QueryAction (Actions i) @ ''}''\<close>

definition encode_QueryResult :: "QueryResult \<Rightarrow> string" where
  \<open>encode_QueryResult r =
     ''{"items":'' @ encode_array encode_QueryItem (Items r) @ ''}''\<close>

definition encode_Metadata :: "Metadata \<Rightarrow> string" where
  \<open>encode_Metadata m =
     ''{"iid":'' @ appendString (IID m)
     @ '',"name":'' @ appendString (Metadata.Name m)
     @ '',"version":'' @ appendString (Version m)
     @ '',"author":'' @ appendString (Author m)
     @ '',"dependencies":'' @ encode_array appendString (Dependencies m)
     @ '',"trigger":'' @ appendString (Trigger m) @ ''}''\<close>

text \<open>
  \<open>json.Marshal\<close> returns the bytes or an error. For these types (strings and slices
  only) it has no failing case; the result type keeps the error branch of the callers.
\<close>

definition Marshal_Metadata :: "Metadata \<Rightarrow> error + string" where
  "Marshal_Metadata m = Inr (encode_Metadata m)"

definition Marshal_QueryResult :: "QueryResult \<Rightarrow> error + string" where
  "Marshal_QueryResult r = Inr (encode_QueryResult r)"

section \<open>The process: environment, output sinks, log\<close>

text \<open>
  An \<open>io.Writer\<close> is the process's standard output or some other sink. The world
  records the environment variables (\<open>os.Getenv\<close> gives the empty string for an unset
  one), the bytes each sink has received, how each sink answers a write (\<open>None\<close>: all
  bytes are taken; \<open>Some (n, e)\<close>: at most \<open>n\<close> bytes are taken and \<open>e\<close> is returned),
  and the lines logged through \<open>glog\<close> at warning level.
\<close>

datatype writer = os_Stdout | other_writer nat

record world =
  Getenv :: "string \<Rightarrow> string"
  sink :: "writer \<Rightarrow> string"
  sink_fault :: "writer \<Rightarrow> (nat \<times> error) option"
  glog_warnings :: "string list"

definition Write :: "writer \<Rightarrow> string \<Rightarrow> 'a world_scheme \<Rightarrow> error option \<times> 'a world_scheme" where
  "Write out b w =
     (case sink_fault w out of
        None \<Rightarrow> (None, w\<lparr>sink := (sink w)(out := sink w out @ b)\<rparr>)
      | Some (n, e) \<Rightarrow> (Some e, w\<lparr>sink := (sink w)(out := sink w out @ take n b)\<rparr>))"

text \<open>\<open>fmt.Print\<close> writes to standard output; the package drops what it returns.\<close>

definition fmt_Print :: "string \<Rightarrow> 'a world_scheme \<Rightarrow> 'a world_scheme" where
  "fmt_Print b w = snd (Write os_Stdout b w)"

definition glog_Warning :: "string \<Rightarrow> 'a world_scheme \<Rightarrow> 'a world_scheme" where
  "glog_Warning msg w = w\<lparr>glog_warnings := glog_warnings w @ [msg]\<rparr>"

text \<open>
  \<open>json.NewEncoder(out).Encode(v)\<close>: the encoding of \<open>v\<close> followed by a newline
  character, in one write.
\<close>

definition Encoder_Encode :: "writer \<Rightarrow> error + string \<Rightarrow> 'a world_scheme \<Rightarrow> error option \<times> 'a world_scheme" where
  "Encoder_Encode out js w =
     (case js of
        Inl e \<Rightarrow> (Some e, w)
      | Inr b \<Rightarrow> Write out (b @ [CHR 0x0A]) w)"

section \<open>The plugin interface and \<open>DefaultPlugin\<close> (current revision)\<close>

text \<open>
  The query callback is the author's code: it gets the query text, may act on the world
  and returns a result together with an error (\<open>None\<close> for Go's nil error). A nil
  callback is \<open>None\<close>. The output of a plugin is a writer, as \<open>NewPlugin\<close> sets it; a
  plugin built by hand with a nil \<open>Output\<close> is outside the embedding.
\<close>

type_synonym query_callback = "string \<Rightarrow> world \<Rightarrow> (QueryResult \<times> error option) \<times> world"

record DefaultPlugin =
  Meta :: Metadata
  Output :: writer
  QueryCallback :: "query_callback option"

definition NewPlugin :: "string \<Rightarrow> string \<Rightarrow> string \<Rightarrow> string \<Rightarrow> query_callback option \<Rightarrow> DefaultPlugin" where
  "NewPlugin name version author trigger qc =
     \<lparr>Meta = \<lparr>IID = defaultProtocolVersion, Metadata.Name = name, Version = version,
              Author = author, Dependencies = Slice [], Trigger = trigger\<rparr>,
      Output = os_Stdout,
      QueryCallback = qc\<rparr>"

definition DefaultPlugin_Metadata :: "DefaultPlugin \<Rightarrow> Metadata" where
  "DefaultPlugin_Metadata p = Meta p"

definition DefaultPlugin_Query :: "DefaultPlugin \<Rightarrow> string \<Rightarrow> world \<Rightarrow> (QueryResult \<times> error option) \<times> world" where
  "DefaultPlugin_Query p query w =
     (case QueryCallback p of
        Some cb \<Rightarrow> cb query w
      | None \<Rightarrow>
          ((\<lparr>Items = nil_slice\<rparr>,
            Some (AlbertError
                    (errorString (''no behavior defined for query '' @ [CHR 0x27] @ query @ [CHR 0x27]))
                    255)),
           w))"

text \<open>
  \<open>RunOp\<close> has a value receiver: its body runs on its own copy \<open>p\<close> of the plugin. The
  embedding returns, next to the error and the world, the receiver as it is when the
  body returns.
\<close>

definition RunOp :: "DefaultPlugin \<Rightarrow> AlbertOp \<Rightarrow> world \<Rightarrow> error option \<times> DefaultPlugin \<times> world" where
  "RunOp p op w =
     (if op = OpMetadata then
        (case Encoder_Encode (Output p) (Marshal_Metadata (DefaultPlugin_Metadata p)) w of
           (Some err, w') \<Rightarrow> (Some err, p, w')
         | (None, w') \<Rightarrow> (None, p, w'))
      else if op = OpName then
        (case Write (Output p) (Metadata.Name (Meta p)) w of
           (err, w') \<Rightarrow> (err, p, w'))
      else if op = OpInitialize then (None, p, w)
      else if op = OpFinalize then (None, p, w)
      else if op = OpSetupSession then (None, p, w)
      else if op = OpTeardownSession then (None, p, w)
      else if op = OpQuery then
        (let query = Getenv w ''ALBERT_QUERY'' in
         case DefaultPlugin_Query p query w of
           ((res, Some err), w1) \<Rightarrow> (Some err, p, w1)
         | ((res, None), w1) \<Rightarrow>
             (case Encoder_Encode (Output p) (Marshal_QueryResult res) w1 of
                (Some err, w2) \<Rightarrow> (Some err, p, w2)
              | (None, w2) \<Rightarrow> (None, p, w2)))
      else
        (Some (AlbertError
                 (errorString (''unknown albert op '' @ [CHR 0x27] @ op @ [CHR 0x27]))
                 255),
         p, w))"

text \<open>
  \<open>Run\<close> takes any value of the interface \<open>Plugin\<close> and calls its \<open>RunOp\<close> only; the
  interface value is that method. Every path ends in \<open>os.Exit\<close>: the result is the exit
  code and the world the process leaves behind.
\<close>

type_synonym Plugin = "AlbertOp \<Rightarrow> world \<Rightarrow> error option \<times> world"

definition as_Plugin :: "DefaultPlugin \<Rightarrow> Plugin" where
  "as_Plugin p op w = (case RunOp p op w of (err, p', w') \<Rightarrow> (err, w'))"

definition Run :: "Plugin \<Rightarrow> world \<Rightarrow> int \<times> world" where
  "Run plugin w =
     (let op = Getenv w ''ALBERT_OP'' in
      case plugin op w of
        (Some err, w') \<Rightarrow>
          (case err of
             AlbertError e code \<Rightarrow>
               (code, glog_Warning (''error (code='' @ itoa code @ ''): '' @ Error err) w')
           | errorString m \<Rightarrow>
               (255, glog_Warning (''error: '' @ Error err) w'))
      | (None, w') \<Rightarrow> (0, w'))"

section \<open>The hook set (second revision)\<close>

text \<open>
  The second revision keeps the metadata in a package-level variable and dispatches
  through a struct of callbacks. A hook is the author's code (or a built-in default): it
  may act on the whole state of the process, the metadata variable included (the setters
  are exported), and returns a status. \<open>Start\<close> is called on a hook set that exists (its
  receiver is not the nil pointer).
\<close>

record gstate = world +
  pluginMetadata :: Metadata

type_synonym hook = "gstate \<Rightarrow> int \<times> gstate"
type_synonym query_hook = "string \<Rightarrow> gstate \<Rightarrow> (QueryResult \<times> int) \<times> gstate"

record HookSet =
  Metadata :: "hook option"
  Name :: "hook option"
  Initialize :: "hook option"
  Finalize :: "hook option"
  SetupSession :: "hook option"
  TeardownSession :: "hook option"
  Query :: "query_hook option"

text \<open>How a call of \<open>Start\<close> ends: in \<open>os.Exit\<close>, by returning to its caller, or in a panic.\<close>

datatype outcome = Exit int | Returned | Panicked panic

definition pluginMetadata_init :: Metadata where
  "pluginMetadata_init =
     \<lparr>IID = protocolVersion, Metadata.Name = [], Version = [], Author = [],
      Dependencies = nil_slice, Trigger = []\<rparr>"

definition SetInfo :: "string \<Rightarrow> string \<Rightarrow> string \<Rightarrow> gstate \<Rightarrow> gstate" where
  "SetInfo name version author s =
     s\<lparr>pluginMetadata :=
         (pluginMetadata s)\<lparr>Metadata.Name := name, Version := version, Author := author\<rparr>\<rparr>"

definition SetTrigger :: "string \<Rightarrow> gstate \<Rightarrow> gstate" where
  "SetTrigger trigger s = s\<lparr>pluginMetadata := (pluginMetadata s)\<lparr>Trigger := trigger\<rparr>\<rparr>"

definition SetDependencies :: "string slice \<Rightarrow> gstate \<Rightarrow> gstate" where
  "SetDependencies deps s = s\<lparr>pluginMetadata := (pluginMetadata s)\<lparr>Dependencies := deps\<rparr>\<rparr>"

definition SetMetadata :: "Metadata option \<Rightarrow> gstate \<Rightarrow> panic + gstate" where
  "SetMetadata m s =
     (case m of
        None \<Rightarrow> Inl nil_dereference
      | Some v \<Rightarrow> Inr (s\<lparr>pluginMetadata := v\<rparr>))"

definition defaultMetadata :: hook where
  "defaultMetadata s =
     (case Marshal_Metadata (pluginMetadata s) of
        Inl e \<Rightarrow> (0, fmt_Print [] s)
      | Inr js \<Rightarrow> (0, fmt_Print js s))"

definition defaultHookSet :: HookSet where
  "defaultHookSet =
     \<lparr>HookSet.Metadata = Some defaultMetadata,
      HookSet.Name = Some (\<lambda>s. (0, fmt_Print (Metadata.Name (pluginMetadata s)) s)),
      Initialize = Some (\<lambda>s. (0, s)),
      Finalize = Some (\<lambda>s. (0, s)),
      SetupSession = Some (\<lambda>s. (0, s)),
      TeardownSession = Some (\<lambda>s. (0, s)),
      Query = Some (\<lambda>query s.
                ((\<lparr>Items = nil_slice\<rparr>, 255), glog_Warning ''Must implement Query behavior'' s))\<rparr>"

definition handleQueryResult :: "(QueryResult \<times> int) \<times> gstate \<Rightarrow> outcome \<times> gstate" where
  "handleQueryResult r =
     (case r of
        ((res, code), s) \<Rightarrow>
          (case Marshal_QueryResult res of
             Inl err \<Rightarrow> (Exit 255, glog_Warning (Error err) s)
           | Inr js \<Rightarrow> (Exit code, fmt_Print js s)))"

text \<open>\<open>os.Exit(f())\<close> for a func value \<open>f\<close>; calling a nil func value panics.\<close>

definition exit_with :: "hook option \<Rightarrow> gstate \<Rightarrow> outcome \<times> gstate" where
  "exit_with f s =
     (case f of
        None \<Rightarrow> (Panicked nil_dereference, s)
      | Some fn \<Rightarrow> (case fn s of (code, s') \<Rightarrow> (Exit code, s')))"

definition query_with :: "query_hook option \<Rightarrow> string \<Rightarrow> gstate \<Rightarrow> outcome \<times> gstate" where
  "query_with f query s =
     (case f of
        None \<Rightarrow> (Panicked nil_dereference, s)
      | Some fn \<Rightarrow> handleQueryResult (fn query s))"

text \<open>
  \<open>Start\<close>: the switch has a case for each of the seven operations and no default, so for
  any other value of the variable the method returns to its caller.
\<close>

definition Start :: "HookSet \<Rightarrow> gstate \<Rightarrow> outcome \<times> gstate" where
  "Start h s =
     (let op = Getenv s ''ALBERT_OP'' in
      if op = ''METADATA'' then
        (case HookSet.Metadata h of
           Some fn \<Rightarrow> exit_with (Some fn) s
         | None \<Rightarrow> exit_with (HookSet.Metadata defaultHookSet) s)
      else if op = ''NAME'' then
        (case HookSet.Name h of
           Some fn \<Rightarrow> exit_with (Some fn) s
         | None \<Rightarrow> exit_with (HookSet.Name defaultHookSet) s)
      else if op = ''INITIALIZE'' then
        (case HookSet.Initialize h of
           Some fn \<Rightarrow> exit_with (Some fn) s
         | None \<Rightarrow> exit_with (HookSet.Initialize defaultHookSet) s)
      else if op = ''FINALIZE'' then
        (case HookSet.Finalize h of
           Some fn \<Rightarrow> exit_with (Some fn) s
         | None \<Rightarrow> exit_with (HookSet.Finalize defaultHookSet) s)
      else if op = ''SETUPSESSION'' then
        (case HookSet.SetupSession h of
           Some fn \<Rightarrow> exit_with (Some fn) s
         | None \<Rightarrow> exit_with (HookSet.SetupSession defaultHookSet) s)
      else if op = ''TEARDOWNSESSION'' then
        (case HookSet.TeardownSession h of
           Some fn \<Rightarrow> exit_with (Some fn) s
         | None \<Rightarrow> exit_with (HookSet.TeardownSession defaultHookSet) s)
      else if op = ''QUERY'' then
        (let query = Getenv s ''ALBERT_QUERY'' in
         case HookSet.Query h of
           Some fn \<Rightarrow> query_with (Some fn) query s
         | None \<Rightarrow> query_with (HookSet.Query defaultHookSet) query s)
      else (Returned, s))"

section \<open>The hook set (first revision)\<close>

text \<open>
  The first revision of \<open>albert.go\<close>: the same struct (two fields spelt
  \<open>Setupsession\<close> and \<open>Teardownsession\<close>), the metadata variable starting as the zero
  value, and a \<open>Start\<close> whose every fallback branch calls \<open>defaultHookSet.Metadata\<close>.
  Its \<open>QUERY\<close> branch with a registered hook is \<open>os.Exit(fn())\<close>, a call without the
  query argument of a function that returns two values, which has no meaning in Go; what
  that branch does is the parameter \<open>registered_query\<close> of the embedding.
\<close>

record HookSet_v0 =
  Metadata :: "hook option"
  Name :: "hook option"
  Initialize :: "hook option"
  Finalize :: "hook option"
  Setupsession :: "hook option"
  Teardownsession :: "hook option"
  Query :: "query_hook option"

definition pluginMetadata_init_v0 :: Metadata where
  "pluginMetadata_init_v0 =
     \<lparr>IID = [], Metadata.Name = [], Version = [], Author = [],
      Dependencies = nil_slice, Trigger = []\<rparr>"

definition defaultHookSet_v0 :: HookSet_v0 where
  "defaultHookSet_v0 =
     \<lparr>HookSet_v0.Metadata = Some defaultMetadata,
      HookSet_v0.Name = Some (\<lambda>s. (0, fmt_Print (Metadata.Name (pluginMetadata s)) s)),
      HookSet_v0.Initialize = Some (\<lambda>s. (0, s)),
      HookSet_v0.Finalize = Some (\<lambda>s. (0, s)),
      Setupsession = Some (\<lambda>s. (0, s)),
      Teardownsession = Some (\<lambda>s. (0, s)),
      HookSet_v0.Query = Some (\<lambda>query s.
                ((\<lparr>Items = nil_slice\<rparr>, 255), glog_Warning ''Must implement Query behavior'' s))\<rparr>"

definition Start_v0 :: "(query_hook \<Rightarrow> gstate \<Rightarrow> outcome \<times> gstate) \<Rightarrow> HookSet_v0 \<Rightarrow> gstate \<Rightarrow> outcome \<times> gstate" where
  "Start_v0 registered_query h s =
     (let op = Getenv s ''ALBERT_OP'' in
      if op = ''METADATA'' then
        (case HookSet_v0.Metadata h of
           Some fn \<Rightarrow> exit_with (Some fn) s
         | None \<Rightarrow> exit_with (HookSet_v0.Metadata defaultHookSet_v0) s)
      else if op = ''NAME'' then
        (case HookSet_v0.Name h of
           Some fn \<Rightarrow> exit_with (Some fn) s
         | None \<Rightarrow> exit_with (HookSet_v0.Metadata defaultHookSet_v0) s)
      else if op = ''INITIALIZE'' then
        (case HookSet_v0.Initialize h of
           Some fn \<Rightarrow> exit_with (Some fn) s
         | None \<Rightarrow> exit_with (HookSet_v0.Metadata defaultHookSet_v0) s)
      else if op = ''FINALIZE'' then
        (case HookSet_v0.Finalize h of
           Some fn \<Rightarrow> exit_with (Some fn) s
         | None \<Rightarrow> exit_with (HookSet_v0.Metadata defaultHookSet_v0) s)
      else if op = ''SETUPSESSION'' then
        (case Setupsession h of
           Some fn \<Rightarrow> exit_with (Some fn) s
         | None \<Rightarrow> exit_with (HookSet_v0.Metadata defaultHookSet_v0) s)
      else if op = ''TEARDOWNSESSION'' then
        (case Teardownsession h of
           Some fn \<Rightarrow> exit_with (Some fn) s
         | None \<Rightarrow> exit_with (HookSet_v0.Metadata defaultHookSet_v0) s)
      else if op = ''QUERY'' then
        (case HookSet_v0.Query h of
           Some fn \<Rightarrow> registered_query fn s
         | None \<Rightarrow> exit_with (HookSet_v0.Metadata defaultHookSet_v0) s)
      else (Returned, s))"

section \<open>Reading the wire format back\<close>

text \<open>
  \<open>utf8.ValidString\<close>: no position of the string decodes to \<open>(RuneError, 1)\<close>.
\<close>

fun utf8_ValidString :: "string \<Rightarrow> bool" where
  "utf8_ValidString [] = True"
| "utf8_ValidString (c # cs) =
     (if byte c < 0x80 then utf8_ValidString cs
      else
        (let r = fst (DecodeRuneInString (c # cs));
             size = snd (DecodeRuneInString (c # cs)) in
         \<not> (r = RuneError \<and> size = 1) \<and> utf8_ValidString (drop (size - 1) cs)))"


text \<open>
  The launcher reads what the plugin prints with a JSON reader of its own. The reader
  below is written after the JSON grammar (RFC 8259), not after code of the package: it
  skips white space between tokens, reads strings with every escape (a four-digit hexadecimal escape
  becomes the UTF-8 bytes of its code point, a surrogate pair one code point, a lone
  surrogate U+FFFD; bytes from 0x80 on are taken as they are), numbers as their text, the
  three literals, arrays and objects to any nesting depth. \<open>parse_value\<close> takes the
  nesting depth it may descend as fuel; \<open>parse_json\<close> gives it the length of the text,
  which no text can exceed, and wants nothing but white space after the value.
\<close>

datatype json =
  JNull | JBool bool | JNumber string | JString string
  | JArray "json list" | JObject "(string \<times> json) list"

definition is_ws :: "char \<Rightarrow> bool" where
  "is_ws c \<longleftrightarrow> c = CHR 0x20 \<or> c = CHR 0x09 \<or> c = CHR 0x0A \<or> c = CHR 0x0D"

fun skip_ws :: "string \<Rightarrow> string" where
  "skip_ws [] = []"
| "skip_ws (c # cs) = (if is_ws c then skip_ws cs else c # cs)"

fun strip_prefix :: "string \<Rightarrow> string \<Rightarrow> string option" where
  "strip_prefix [] s = Some s"
| "strip_prefix (p # ps) [] = None"
| "strip_prefix (p # ps) (c # cs) = (if p = c then strip_prefix ps cs else None)"

definition hexval :: "char \<Rightarrow> nat option" where
  "hexval c =
     (let b = byte c in
      if 0x30 \<le> b \<and> b \<le> 0x39 then Some (b - 0x30)
      else if 0x41 \<le> b \<and> b \<le> 0x46 then Some (b - 0x41 + 10)
      else if 0x61 \<le> b \<and> b \<le> 0x66 then Some (b - 0x61 + 10)
      else None)"

definition hex4 :: "char \<Rightarrow> char \<Rightarrow> char \<Rightarrow> char \<Rightarrow> nat option" where
  "hex4 a b c d =
     (case hexval a of None \<Rightarrow> None | Some w \<Rightarrow>
     (case hexval b of None \<Rightarrow> None | Some x \<Rightarrow>
     (case hexval c of None \<Rightarrow> None | Some y \<Rightarrow>
     (case hexval d of None \<Rightarrow> None | Some z \<Rightarrow>
        Some (w * 4096 + x * 256 + y * 16 + z)))))"

definition EncodeRune :: "nat \<Rightarrow> string" where
  "EncodeRune r =
     (if r < 0x80 then [char_of r]
      else if r < 0x800 then [char_of (0xC0 + r div 64), char_of (0x80 + r mod 64)]
      else if (0xD800 \<le> r \<and> r \<le> 0xDFFF) \<or> 0x10FFFF < r then [CHR 0xEF, CHR 0xBF, CHR 0xBD]
      else if r < 0x10000 then
        [char_of (0xE0 + r div 4096), char_of (0x80 + r div 64 mod 64), char_of (0x80 + r mod 64)]
      else
        [char_of (0xF0 + r div 262144), char_of (0x80 + r div 4096 mod 64),
         char_of (0x80 + r div 64 mod 64), char_of (0x80 + r mod 64)])"

definition unescape :: "char \<Rightarrow> char option" where
  "unescape e =
     (if e = CHR 0x22 \<or> e = CHR 0x5C \<or> e = CHR ''/'' then Some e
      else if e = CHR ''b'' then Some (CHR 0x08)
      else if e = CHR ''f'' then Some (CHR 0x0C)
      else if e = CHR ''n'' then Some (CHR 0x0A)
      else if e = CHR ''r'' then Some (CHR 0x0D)
      else if e = CHR ''t'' then Some (CHR 0x09)
      else None)"

definition prepend :: "string \<Rightarrow> (string \<times> string) option \<Rightarrow> (string \<times> string) option" where
  "prepend p r = (case r of None \<Rightarrow> None | Some (s, rest) \<Rightarrow> Some (p @ s, rest))"

definition low_surrogate :: "string \<Rightarrow> nat option" where
  "low_surrogate s =
     (case s of
        b # v # l1 # l2 # l3 # l4 # _ \<Rightarrow>
          if b = CHR 0x5C \<and> v = CHR ''u'' then
            (case hex4 l1 l2 l3 l4 of
               None \<Rightarrow> None
             | Some lo \<Rightarrow> if 0xDC00 \<le> lo \<and> lo < 0xE000 then Some lo else None)
          else None
      | _ \<Rightarrow> None)"

fun parse_chars :: "string \<Rightarrow> (string \<times> string) option" where
  "parse_chars [] = None"
| "parse_chars (c # cs) =
     (if c = CHR 0x22 then Some ([], cs)
      else if c = CHR 0x5C then
        (case cs of
           [] \<Rightarrow> None
         | e # cs1 \<Rightarrow>
             if e = CHR ''u'' then
               (case cs1 of
                  h1 # h2 # h3 # h4 # cs2 \<Rightarrow>
                    (case hex4 h1 h2 h3 h4 of
                       None \<Rightarrow> None
                     | Some u \<Rightarrow>
                         if 0xD800 \<le> u \<and> u < 0xDC00 then
                           (case low_surrogate cs2 of
                              None \<Rightarrow> prepend (EncodeRune RuneError) (parse_chars cs2)
                            | Some lo \<Rightarrow>
                                prepend (EncodeRune (0x10000 + (u - 0xD800) * 1024 + (lo - 0xDC00)))
                                  (parse_chars (drop 6 cs2)))
                         else prepend (EncodeRune u) (parse_chars cs2))
                | _ \<Rightarrow> None)
             else
               (case unescape e of
                  None \<Rightarrow> None
                | Some d \<Rightarrow> prepend [d] (parse_chars cs1)))
      else if byte c < 0x20 then None
      else prepend [c] (parse_chars cs))"

definition is_digit :: "char \<Rightarrow> bool" where
  "is_digit c \<longleftrightarrow> 0x30 \<le> byte c \<and> byte c \<le> 0x39"

definition scan_int :: "string \<Rightarrow> (string \<times> string) option" where
  "scan_int s =
     (case s of
        [] \<Rightarrow> None
      | c # cs \<Rightarrow>
          if c = CHR ''0'' then Some ([c], cs)
          else if is_digit c then Some (takeWhile is_digit s, dropWhile is_digit s)
          else None)"

definition scan_digits1 :: "string \<Rightarrow> (string \<times> string) option" where
  "scan_digits1 s =
     (if takeWhile is_digit s = [] then None
      else Some (takeWhile is_digit s, dropWhile is_digit s))"

definition scan_frac :: "string \<Rightarrow> (string \<times> string) option" where
  "scan_frac s =
     (case s of
        [] \<Rightarrow> Some ([], s)
      | c # cs \<Rightarrow>
          if c = CHR ''.'' then
            (case scan_digits1 cs of None \<Rightarrow> None | Some (d, r) \<Rightarrow> Some (c # d, r))
          else Some ([], s))"

definition scan_exp :: "string \<Rightarrow> (string \<times> string) option" where
  "scan_exp s =
     (case s of
        [] \<Rightarrow> Some ([], s)
      | c # cs \<Rightarrow>
          if c = CHR ''e'' \<or> c = CHR ''E'' then
            (case cs of
               [] \<Rightarrow> None
             | g # cs' \<Rightarrow>
                 if g = CHR ''+'' \<or> g = CHR ''-'' then
                   (case scan_digits1 cs' of None \<Rightarrow> None | Some (d, r) \<Rightarrow> Some (c # g # d, r))
                 else
                   (case scan_digits1 cs of None \<Rightarrow> None | Some (d, r) \<Rightarrow> Some (c # d, r)))
          else Some ([], s))"

definition parse_number :: "string \<Rightarrow> (string \<times> string) option" where
  "parse_number s =
     (let sign = (case s of [] \<Rightarrow> [] | c # _ \<Rightarrow> if c = CHR ''-'' then [c] else []);
          s1 = drop (length sign) s in
      (case scan_int s1 of None \<Rightarrow> None | Some (i, s2) \<Rightarrow>
      (case scan_frac s2 of None \<Rightarrow> None | Some (f, s3) \<Rightarrow>
      (case scan_exp s3 of None \<Rightarrow> None | Some (e, s4) \<Rightarrow>
        Some (sign @ i @ f @ e, s4)))))"

fun parse_seq :: "(string \<Rightarrow> ('a \<times> string) option) \<Rightarrow> char \<Rightarrow> nat \<Rightarrow> string \<Rightarrow> ('a list \<times> string) option" where
  "parse_seq elem close 0 s = None"
| "parse_seq elem close (Suc k) s =
     (case elem s of
        None \<Rightarrow> None
      | Some (x, r) \<Rightarrow>
          (case skip_ws r of
             [] \<Rightarrow> None
           | c # r' \<Rightarrow>
               if c = close then Some ([x], r')
               else if c = CHR '','' then
                 (case parse_seq elem close k r' of
                    None \<Rightarrow> None
                  | Some (xs, r'') \<Rightarrow> Some (x # xs, r''))
               else None))"

definition parse_member :: "(string \<Rightarrow> (json \<times> string) option) \<Rightarrow> string \<Rightarrow> ((string \<times> json) \<times> string) option" where
  "parse_member val s =
     (case skip_ws s of
        [] \<Rightarrow> None
      | c # cs \<Rightarrow>
          if c = CHR 0x22 then
            (case parse_chars cs of
               None \<Rightarrow> None
             | Some (k, r) \<Rightarrow>
                 (case skip_ws r of
                    [] \<Rightarrow> None
                  | d # r' \<Rightarrow>
                      if d = CHR '':'' then
                        (case val r' of None \<Rightarrow> None | Some (v, r'') \<Rightarrow> Some ((k, v), r''))
                      else None))
          else None)"

fun parse_value :: "nat \<Rightarrow> string \<Rightarrow> (json \<times> string) option" where
  "parse_value 0 s = None"
| "parse_value (Suc n) s =
     (case skip_ws s of
        [] \<Rightarrow> None
      | c # cs \<Rightarrow>
          if c = CHR 0x22 then
            (case parse_chars cs of None \<Rightarrow> None | Some (x, r) \<Rightarrow> Some (JString x, r))
          else if c = CHR ''['' then
            (case skip_ws cs of
               [] \<Rightarrow> None
             | d # r \<Rightarrow>
                 if d = CHR '']'' then Some (JArray [], r)
                 else
                   (case parse_seq (parse_value n) (CHR '']'') (length cs) cs of
                      None \<Rightarrow> None
                    | Some (vs, r') \<Rightarrow> Some (JArray vs, r')))
          else if c = CHR ''{'' then
            (case skip_ws cs of
               [] \<Rightarrow> None
             | d # r \<Rightarrow>
                 if d = CHR ''}'' then Some (JObject [], r)
                 else
                   (case parse_seq (parse_member (parse_value n)) (CHR ''}'') (length cs) cs of
                      None \<Rightarrow> None
                    | Some (ms, r') \<Rightarrow> Some (JObject ms, r')))
          else if c = CHR ''t'' then
            (case strip_prefix ''rue'' cs of None \<Rightarrow> None | Some r \<Rightarrow> Some (JBool True, r))
          else if c = CHR ''f'' then
            (case strip_prefix ''alse'' cs of None \<Rightarrow> None | Some r \<Rightarrow> Some (JBool False, r))
          else if c = CHR ''n'' then
            (case strip_prefix ''ull'' cs of None \<Rightarrow> None | Some r \<Rightarrow> Some (JNull, r))
          else
            (case parse_number (c # cs) of
               None \<Rightarrow> None
             | Some (lexeme, r) \<Rightarrow> Some (JNumber lexeme, r)))"

definition parse_json :: "string \<Rightarrow> json option" where
  "parse_json s =
     (case parse_value (length s) s of
        None \<Rightarrow> None
      | Some (v, r) \<Rightarrow> if skip_ws r = [] then Some v else None)"

text \<open>
  Binding a JSON value to the structs of the data model, as a reader does that fills a
  struct by field names: a missing member or \<open>null\<close> leaves the zero value (the empty
  string, the nil slice), the last of several members of one name wins, other members
  are ignored, a value of another kind is an error.
\<close>

definition member :: "string \<Rightarrow> (string \<times> json) list \<Rightarrow> json" where
  "member k ms = (case map_of (rev ms) k of None \<Rightarrow> JNull | Some v \<Rightarrow> v)"

definition to_string :: "json \<Rightarrow> string option" where
  "to_string v = (case v of JString s \<Rightarrow> Some s | JNull \<Rightarrow> Some [] | _ \<Rightarrow> None)"

definition to_slice :: "(json \<Rightarrow> 'a option) \<Rightarrow> json \<Rightarrow> 'a slice option" where
  "to_slice f v =
     (case v of
        JNull \<Rightarrow> Some nil_slice
      | JArray vs \<Rightarrow> map_option Slice (those (map f vs))
      | _ \<Rightarrow> None)"

definition to_QueryAction :: "json \<Rightarrow> QueryAction option" where
  "to_QueryAction v =
     (case v of
        JObject ms \<Rightarrow>
          (case to_string (member ''name'' ms) of None \<Rightarrow> None | Some n \<Rightarrow>
          (case to_string (member ''command'' ms) of None \<Rightarrow> None | Some c \<Rightarrow>
          (case to_slice to_string (member ''arguments'' ms) of None \<Rightarrow> None | Some a \<Rightarrow>
             Some \<lparr>QueryAction.Name = n, Command = c, Arguments = a\<rparr>)))
      | _ \<Rightarrow> None)"

definition to_QueryItem :: "json \<Rightarrow> QueryItem option" where
  "to_QueryItem v =
     (case v of
        JObject ms \<Rightarrow>
          (case to_string (member ''id'' ms) of None \<Rightarrow> None | Some i \<Rightarrow>
          (case to_string (member ''name'' ms) of None \<Rightarrow> None | Some n \<Rightarrow>
          (case to_string (member ''description'' ms) of None \<Rightarrow> None | Some d \<Rightarrow>
          (case to_string (member ''completion'' ms) of None \<Rightarrow> None | Some c \<Rightarrow>
          (case to_string (member ''icon'' ms) of None \<Rightarrow> None | Some ic \<Rightarrow>
          (case to_slice to_QueryAction (member ''actions'' ms) of None \<Rightarrow> None | Some a \<Rightarrow>
             Some \<lparr>ID = i, QueryItem.Name = n, Description = d, Completion = c, Icon = ic,
                   Actions = a\<rparr>))))))
      | _ \<Rightarrow> None)"

definition to_QueryResult :: "json \<Rightarrow> QueryResult option" where
  "to_QueryResult v =
     (case v of
        JObject ms \<Rightarrow>
          (case to_slice to_QueryItem (member ''items'' ms) of
             None \<Rightarrow> None
           | Some its \<Rightarrow> Some \<lparr>Items = its\<rparr>)
      | _ \<Rightarrow> None)"

definition decode_QueryResult :: "string \<Rightarrow> QueryResult option" where
  "decode_QueryResult s = (case parse_json s of None \<Rightarrow> None | Some v \<Rightarrow> to_QueryResult v)"


section \<open>Notions used to state the round trip\<close>

text \<open>
  A value is valid when every string in it is valid UTF-8. \<open>coerce_utf8\<close> is the string
  the encoder really transmits: each byte that starts no valid sequence is replaced by
  U+FFFD. \<open>json_of_QueryResult\<close> and its companions name the JSON value that the encoding
  of a struct denotes; \<open>member_text\<close> is the text of one object member.
\<close>

definition valid_QueryAction :: "QueryAction \<Rightarrow> bool" where
  "valid_QueryAction a \<longleftrightarrow>
     utf8_ValidString (QueryAction.Name a) \<and> utf8_ValidString (Command a)
     \<and> list_all utf8_ValidString (elems (Arguments a))"

definition valid_QueryItem :: "QueryItem \<Rightarrow> bool" where
  "valid_QueryItem i \<longleftrightarrow>
     utf8_ValidString (ID i) \<and> utf8_ValidString (QueryItem.Name i)
     \<and> utf8_ValidString (Description i) \<and> utf8_ValidString (Completion i)
     \<and> utf8_ValidString (Icon i) \<and> list_all valid_QueryAction (elems (Actions i))"

definition valid_QueryResult :: "QueryResult \<Rightarrow> bool" where
  "valid_QueryResult r \<longleftrightarrow> list_all valid_QueryItem (elems (Items r))"



fun coerce_utf8 :: "string \<Rightarrow> string" where
  "coerce_utf8 [] = []"
| "coerce_utf8 (c # cs) =
     (if byte c < 0x80 then c # coerce_utf8 cs
      else
        (let r = fst (DecodeRuneInString (c # cs));
             size = snd (DecodeRuneInString (c # cs)) in
         if r = RuneError \<and> size = 1 then
           [CHR 0xEF, CHR 0xBF, CHR 0xBD] @ coerce_utf8 cs
         else c # take (size - 1) cs @ coerce_utf8 (drop (size - 1) cs)))"


definition map_slice :: "('a \<Rightarrow> 'b) \<Rightarrow> 'a slice \<Rightarrow> 'b slice" where
  "map_slice f s = (case s of nil_slice \<Rightarrow> nil_slice | Slice xs \<Rightarrow> Slice (map f xs))"

definition coerce_QueryAction :: "QueryAction \<Rightarrow> QueryAction" where
  "coerce_QueryAction a =
     \<lparr>QueryAction.Name = coerce_utf8 (QueryAction.Name a), Command = coerce_utf8 (Command a),
      Arguments = map_slice coerce_utf8 (Arguments a)\<rparr>"

definition coerce_QueryItem :: "QueryItem \<Rightarrow> QueryItem" where
  "coerce_QueryItem i =
     \<lparr>ID = coerce_utf8 (ID i), QueryItem.Name = coerce_utf8 (QueryItem.Name i),
      Description = coerce_utf8 (Description i), Completion = coerce_utf8 (Completion i),
      Icon = coerce_utf8 (Icon i), Actions = map_slice coerce_QueryAction (Actions i)\<rparr>"

definition coerce_QueryResult :: "QueryResult \<Rightarrow> QueryResult" where
  "coerce_QueryResult r = \<lparr>Items = map_slice coerce_QueryItem (Items r)\<rparr>"

definition json_array :: "('a \<Rightarrow> json) \<Rightarrow> 'a slice \<Rightarrow> json" where
  "json_array f s = (case s of nil_slice \<Rightarrow> JNull | Slice xs \<Rightarrow> JArray (map f xs))"

definition json_of_string :: "string \<Rightarrow> json" where
  "json_of_string s = JString (coerce_utf8 s)"

definition json_of_QueryAction :: "QueryAction \<Rightarrow> json" where
  "json_of_QueryAction a =
     JObject [(''name'', json_of_string (QueryAction.Name a)),
              (''command'', json_of_string (Command a)),
              (''arguments'', json_array json_of_string (Arguments a))]"

definition json_of_QueryItem :: "QueryItem \<Rightarrow> json" where
  "json_of_QueryItem i =
     JObject [(''id'', json_of_string (ID i)),
              (''name'', json_of_string (QueryItem.Name i)),
              (''description'', json_of_string (Description i)),
              (''completion'', json_of_string (Completion i)),
              (''icon'', json_of_string (Icon i)),
              (''actions'', json_array json_of_QueryAction (Actions i))]"

definition json_of_QueryResult :: "QueryResult \<Rightarrow> json" where
  "json_of_QueryResult r = JObject [(''items'', json_array json_of_QueryItem (Items r))]"


definition member_text :: "string \<Rightarrow> string \<Rightarrow> string" where
  "member_text k t = CHR 0x22 # k @ CHR 0x22 # CHR '':'' # t"

section \<open>A process as the launcher starts it\<close>

text \<open>
  The launcher sets \<open>ALBERT_OP\<close> (and \<open>ALBERT_QUERY\<close> for a query) and starts the plugin:
  nothing is written yet, no sink fails, the log is empty. For the hook-set revisions the
  state also holds the metadata variable. \<open>no_hooks\<close> is the hook set of an author who
  registers nothing.
\<close>

definition process_start :: "string \<Rightarrow> string \<Rightarrow> world" where
  "process_start op query =
     \<lparr>Getenv = (\<lambda>k. if k = ''ALBERT_OP'' then op else if k = ''ALBERT_QUERY'' then query else []),
      sink = (\<lambda>out. []), sink_fault = (\<lambda>out. None), glog_warnings = []\<rparr>"

definition process_start_with :: "string \<Rightarrow> string \<Rightarrow> Metadata \<Rightarrow> gstate" where
  "process_start_with op query m =
     \<lparr>Getenv = (\<lambda>k. if k = ''ALBERT_OP'' then op else if k = ''ALBERT_QUERY'' then query else []),
      sink = (\<lambda>out. []), sink_fault = (\<lambda>out. None), glog_warnings = [],
      pluginMetadata = m\<rparr>"

definition no_hooks :: HookSet where
  "no_hooks = \<lparr>HookSet.Metadata = None, HookSet.Name = None, HookSet.Initialize = None, HookSet.Finalize = None,
     HookSet.SetupSession = None, HookSet.TeardownSession = None, HookSet.Query = None\<rparr>"

definition no_hooks_v0 :: HookSet_v0 where
  "no_hooks_v0 = \<lparr>HookSet_v0.Metadata = None, HookSet_v0.Name = None, HookSet_v0.Initialize = None,
     HookSet_v0.Finalize = None, Setupsession = None, Teardownsession = None, HookSet_v0.Query = None\<rparr>"


section \<open>Properties: the dispatchers, branch by branch\<close>

lemma ops_simps: "OpMetadata = ''METADATA''" "OpName = ''NAME''" "OpInitialize = ''INITIALIZE''"
  "OpFinalize = ''FINALIZE''" "OpSetupSession = ''SETUPSESSION''"
  "OpTeardownSession = ''TEARDOWNSESSION''" "OpQuery = ''QUERY''"
  by (simp_all add: OpMetadata_def OpName_def OpInitialize_def OpFinalize_def OpSetupSession_def
      OpTeardownSession_def OpQuery_def)

lemma RunOp_Metadata:
  "RunOp p ''METADATA'' w =
     (case Encoder_Encode (Output p) (Marshal_Metadata (DefaultPlugin_Metadata p)) w of
        (err, w') \<Rightarrow> (err, p, w'))"
  by (simp add: RunOp_def ops_simps split: prod.split option.split)

lemma RunOp_Name:
  "RunOp p ''NAME'' w =
     (case Write (Output p) (Metadata.Name (Meta p)) w of (err, w') \<Rightarrow> (err, p, w'))"
  by (simp add: RunOp_def ops_simps)

lemma RunOp_lifecycle:
  "op \<in> {''INITIALIZE'', ''FINALIZE'', ''SETUPSESSION'', ''TEARDOWNSESSION''} \<Longrightarrow>
     RunOp p op w = (None, p, w)"
  by (auto simp add: RunOp_def ops_simps)

lemma RunOp_Query:
  "RunOp p ''QUERY'' w =
     (case DefaultPlugin_Query p (Getenv w ''ALBERT_QUERY'') w of
        ((res, Some err), w1) \<Rightarrow> (Some err, p, w1)
      | ((res, None), w1) \<Rightarrow>
          (case Encoder_Encode (Output p) (Marshal_QueryResult res) w1 of
             (err, w2) \<Rightarrow> (err, p, w2)))"
  by (simp add: RunOp_def ops_simps Let_def split: prod.split option.split)

lemma RunOp_unknown:
  "op \<notin> set recognized_ops \<Longrightarrow>
     RunOp p op w =
       (Some (AlbertError (errorString (''unknown albert op '' @ [CHR 0x27] @ op @ [CHR 0x27])) 255),
        p, w)"
  by (simp add: RunOp_def recognized_ops_def)

lemma op_cases:
  "op = ''METADATA'' \<or> op = ''NAME''
   \<or> op \<in> {''INITIALIZE'', ''FINALIZE'', ''SETUPSESSION'', ''TEARDOWNSESSION''}
   \<or> op = ''QUERY'' \<or> op \<notin> set recognized_ops"
  by (auto simp add: recognized_ops_def ops_simps)

lemma recognized_ops_iff:
  "op \<in> set recognized_ops \<longleftrightarrow>
     op = ''METADATA'' \<or> op = ''NAME'' \<or> op = ''INITIALIZE'' \<or> op = ''FINALIZE''
     \<or> op = ''SETUPSESSION'' \<or> op = ''TEARDOWNSESSION'' \<or> op = ''QUERY''"
  by (simp add: recognized_ops_def ops_simps)

lemma itoa_255: "itoa 255 = ''255''"
  by (simp add: itoa_def)

lemma Run_AlbertError:
  "plugin (Getenv w ''ALBERT_OP'') w = (Some (AlbertError e code), w') \<Longrightarrow>
     Run plugin w = (code, glog_Warning (''error (code='' @ itoa code @ ''): '' @ Error e) w')"
  by (simp add: Run_def)

lemma Run_other_error:
  "plugin (Getenv w ''ALBERT_OP'') w = (Some (errorString m), w') \<Longrightarrow>
     Run plugin w = (255, glog_Warning (''error: '' @ m) w')"
  by (simp add: Run_def)

lemma Run_no_error:
  "plugin (Getenv w ''ALBERT_OP'') w = (None, w') \<Longrightarrow> Run plugin w = (0, w')"
  by (simp add: Run_def)

lemma Write_ok:
  "sink_fault w out = None \<Longrightarrow>
     Write out b w = (None, w\<lparr>sink := (sink w)(out := sink w out @ b)\<rparr>)"
  by (simp add: Write_def)

lemma fmt_Print_ok:
  "sink_fault w os_Stdout = None \<Longrightarrow>
     fmt_Print b w = w\<lparr>sink := (sink w)(os_Stdout := sink w os_Stdout @ b)\<rparr>"
  by (simp add: fmt_Print_def Write_def)

lemma exit_with_Some: "exit_with (Some fn) s = (Exit (fst (fn s)), snd (fn s))"
  by (simp add: exit_with_def split: prod.split)

lemma Start_Metadata_default:
  "Getenv s ''ALBERT_OP'' = ''METADATA'' \<Longrightarrow> HookSet.Metadata h = None \<Longrightarrow>
     Start h s = (Exit 0, fmt_Print (encode_Metadata (pluginMetadata s)) s)"
  by (simp add: Start_def defaultHookSet_def exit_with_Some defaultMetadata_def Marshal_Metadata_def)

lemma Start_Name_default:
  "Getenv s ''ALBERT_OP'' = ''NAME'' \<Longrightarrow> HookSet.Name h = None \<Longrightarrow>
     Start h s = (Exit 0, fmt_Print (Metadata.Name (pluginMetadata s)) s)"
  by (simp add: Start_def defaultHookSet_def exit_with_Some)

lemma Start_Initialize_default:
  "Getenv s ''ALBERT_OP'' = ''INITIALIZE'' \<Longrightarrow> HookSet.Initialize h = None \<Longrightarrow> Start h s = (Exit 0, s)"
  by (simp add: Start_def defaultHookSet_def exit_with_Some)

lemma Start_Finalize_default:
  "Getenv s ''ALBERT_OP'' = ''FINALIZE'' \<Longrightarrow> HookSet.Finalize h = None \<Longrightarrow> Start h s = (Exit 0, s)"
  by (simp add: Start_def defaultHookSet_def exit_with_Some)

lemma Start_SetupSession_default:
  "Getenv s ''ALBERT_OP'' = ''SETUPSESSION'' \<Longrightarrow> HookSet.SetupSession h = None \<Longrightarrow> Start h s = (Exit 0, s)"
  by (simp add: Start_def defaultHookSet_def exit_with_Some)

lemma Start_TeardownSession_default:
  "Getenv s ''ALBERT_OP'' = ''TEARDOWNSESSION'' \<Longrightarrow> HookSet.TeardownSession h = None \<Longrightarrow>
     Start h s = (Exit 0, s)"
  by (simp add: Start_def defaultHookSet_def exit_with_Some)

lemma encode_empty_result: \<open>encode_QueryResult \<lparr>Items = nil_slice\<rparr> = ''{"items":null}''\<close>
  by (simp add: encode_QueryResult_def encode_array_def)

lemma Start_Query_default:
  \<open>Getenv s ''ALBERT_OP'' = ''QUERY'' \<Longrightarrow> HookSet.Query h = None \<Longrightarrow>
     Start h s =
       (Exit 255, fmt_Print ''{"items":null}'' (glog_Warning ''Must implement Query behavior'' s))\<close>
  by (simp add: Start_def defaultHookSet_def query_with_def handleQueryResult_def
      Marshal_QueryResult_def encode_empty_result)

lemma Start_unknown:
  "Getenv s ''ALBERT_OP'' \<notin> set recognized_ops \<Longrightarrow> Start h s = (Returned, s)"
  by (simp add: Start_def recognized_ops_iff)

lemma Start_v0_fallback:
  "Getenv s ''ALBERT_OP'' = op \<Longrightarrow> op \<in> set recognized_ops \<Longrightarrow> h = no_hooks_v0 \<Longrightarrow>
     Start_v0 rq h s = (Exit 0, fmt_Print (encode_Metadata (pluginMetadata s)) s)"
  by (auto simp add: Start_v0_def recognized_ops_iff no_hooks_v0_def defaultHookSet_v0_def
      exit_with_Some defaultMetadata_def Marshal_Metadata_def)


lemma process_start_simps:
  "Getenv (process_start op query) ''ALBERT_OP'' = op"
  "Getenv (process_start op query) ''ALBERT_QUERY'' = query"
  "sink (process_start op query) out = []"
  "sink_fault (process_start op query) out = None"
  "glog_warnings (process_start op query) = []"
  by (simp_all add: process_start_def)

lemma process_start_with_simps:
  "Getenv (process_start_with op query m) ''ALBERT_OP'' = op"
  "Getenv (process_start_with op query m) ''ALBERT_QUERY'' = query"
  "sink (process_start_with op query m) out = []"
  "sink_fault (process_start_with op query m) out = None"
  "glog_warnings (process_start_with op query m) = []"
  "pluginMetadata (process_start_with op query m) = m"
  by (simp_all add: process_start_with_def)

lemma setters_frame:
  "Getenv (SetInfo n v a s) = Getenv s" "sink (SetInfo n v a s) = sink s"
  "sink_fault (SetInfo n v a s) = sink_fault s" "glog_warnings (SetInfo n v a s) = glog_warnings s"
  "Getenv (SetTrigger t s) = Getenv s" "sink (SetTrigger t s) = sink s"
  "sink_fault (SetTrigger t s) = sink_fault s" "glog_warnings (SetTrigger t s) = glog_warnings s"
  "Getenv (SetDependencies d s) = Getenv s" "sink (SetDependencies d s) = sink s"
  "sink_fault (SetDependencies d s) = sink_fault s"
  "glog_warnings (SetDependencies d s) = glog_warnings s"
  by (simp_all add: SetInfo_def SetTrigger_def SetDependencies_def)

lemma appendString_safe:
  "\<forall>c \<in> set s. htmlSafe c \<Longrightarrow> appendString_body s = s"
  by (induction s) (auto simp add: htmlSafe_def)

lemma appendString_samples:
  \<open>appendString [] = ''""''\<close>
  \<open>appendString ''demo'' = ''"demo"''\<close>
  \<open>appendString ''0.1'' = ''"0.1"''\<close>
  \<open>appendString ''a'' = ''"a"''\<close>
  \<open>appendString ''t'' = ''"t"''\<close>
  \<open>appendString ''org.albert.extension.external/v2.0'' = ''"org.albert.extension.external/v2.0"''\<close>
  by (simp_all add: appendString_def appendString_safe htmlSafe_def byte_def)

section \<open>Helper facts for the claims\<close>

lemma Start_Name_default_sample:
  \<open>fst (Start no_hooks
          (SetInfo ''demo'' ''0.1'' ''a'' (process_start_with ''NAME'' [] pluginMetadata_init)))
     = Exit 0
   \<and> sink (snd (Start no_hooks
          (SetInfo ''demo'' ''0.1'' ''a'' (process_start_with ''NAME'' [] pluginMetadata_init))))
        os_Stdout
     = ''demo''\<close>
  by (simp add: Start_Name_default no_hooks_def setters_frame
      process_start_with_simps fmt_Print_ok SetInfo_def pluginMetadata_init_def)

lemma RunOp_Query_callback_error:
  "QueryCallback p = Some cb \<Longrightarrow> cb (Getenv w ''ALBERT_QUERY'') w = ((res, Some err), w1) \<Longrightarrow>
     RunOp p ''QUERY'' w = (Some err, p, w1)"
  by (simp add: RunOp_Query DefaultPlugin_Query_def)

lemma NewQueryAction_strips:
  "0 < len (Args c) \<Longrightarrow>
     NewQueryAction name (Some c) =
       Inr \<lparr>QueryAction.Name = name, Command = Path c, Arguments = Slice (tl (elems (Args c)))\<rparr>"
  by (cases "Args c") (simp_all add: NewQueryAction_def slice_from_def len_def drop_Suc)

lemma Start_defaults_keep_metadata:
  assumes "h = no_hooks"
  shows "pluginMetadata (snd (Start h s)) = pluginMetadata s"
proof -
  have p: "pluginMetadata (fmt_Print b t) = pluginMetadata t" for b and t :: gstate
    by (simp add: fmt_Print_def Write_def split: option.split prod.split)
  have g: "pluginMetadata (glog_Warning m t) = pluginMetadata t" for m and t :: gstate
    by (simp add: glog_Warning_def)
  have n: "HookSet.Metadata h = None" "HookSet.Name h = None" "HookSet.Initialize h = None"
    "HookSet.Finalize h = None" "HookSet.SetupSession h = None"
    "HookSet.TeardownSession h = None" "HookSet.Query h = None"
    by (simp_all add: assms no_hooks_def)
  consider "Getenv s ''ALBERT_OP'' = ''METADATA''" | "Getenv s ''ALBERT_OP'' = ''NAME''"
    | "Getenv s ''ALBERT_OP'' = ''INITIALIZE''" | "Getenv s ''ALBERT_OP'' = ''FINALIZE''"
    | "Getenv s ''ALBERT_OP'' = ''SETUPSESSION''" | "Getenv s ''ALBERT_OP'' = ''TEARDOWNSESSION''"
    | "Getenv s ''ALBERT_OP'' = ''QUERY''" | "Getenv s ''ALBERT_OP'' \<notin> set recognized_ops"
    using recognized_ops_iff by blast
  then show ?thesis
  proof cases
    case 1 then show ?thesis by (simp add: Start_Metadata_default n p)
  next
    case 2 then show ?thesis by (simp add: Start_Name_default n p)
  next
    case 3 then show ?thesis by (simp add: Start_Initialize_default n)
  next
    case 4 then show ?thesis by (simp add: Start_Finalize_default n)
  next
    case 5 then show ?thesis by (simp add: Start_SetupSession_default n)
  next
    case 6 then show ?thesis by (simp add: Start_TeardownSession_default n)
  next
    case 7 then show ?thesis by (simp add: Start_Query_default n p g)
  next
    case 8 then show ?thesis by (simp add: Start_unknown)
  qed
qed

lemma scenario_wire:
  \<open>encode_Metadata
      \<lparr>IID = ''org.albert.extension.external/v2.0'', Metadata.Name = ''demo'', Version = ''0.1'',
       Author = ''a'', Dependencies = Slice [], Trigger = ''t''\<rparr>
    = ''{"iid":"org.albert.extension.external/v2.0","name":"demo","version":"0.1","author":"a","dependencies":[],"trigger":"t"}''\<close>
  by (simp add: encode_Metadata_def encode_array_def appendString_samples)

section \<open>Properties: the encoding read back\<close>

subsection \<open>Escapes of single bytes\<close>

lemma hexval_hex: "n < 16 \<Longrightarrow> hexval (hex n) = Some n"
proof -
  assume "n < 16"
  then consider "n = 0" | "n = 1" | "n = 2" | "n = 3" | "n = 4" | "n = 5" | "n = 6" | "n = 7"
    | "n = 8" | "n = 9" | "n = 10" | "n = 11" | "n = 12" | "n = 13" | "n = 14" | "n = 15"
    by atomize_elim arith
  then show ?thesis
    by cases (simp_all add: hex_def hexval_def byte_def)
qed

lemma byte_lt_256: "byte c < 256"
  by (simp add: byte_def)

lemma char_of_byte: "char_of (byte c) = c"
  by (simp add: byte_def)

lemma byte_eq_iff: "byte c = byte d \<longleftrightarrow> c = d"
  by (simp add: byte_def)

lemma byte_literals:
  "byte (CHR 0x22) = 0x22" "byte (CHR 0x5C) = 0x5C" "byte (CHR ''<'') = 0x3C"
  "byte (CHR ''>'') = 0x3E" "byte (CHR ''&'') = 0x26" "byte (CHR ''u'') = 0x75"
  "byte (CHR 0x08) = 8" "byte (CHR 0x0C) = 12" "byte (CHR 0x0A) = 10" "byte (CHR 0x0D) = 13"
  "byte (CHR 0x09) = 9" "byte (CHR ''0'') = 0x30"
  by (simp_all add: byte_def)

lemma prepend_prepend: "prepend p (prepend q r) = prepend (p @ q) r"
  by (simp add: prepend_def split: option.split)

lemma prepend_Some: "prepend p (Some (s, r)) = Some (p @ s, r)"
  by (simp add: prepend_def)

lemma parse_chars_plain:
  "c \<noteq> CHR 0x22 \<Longrightarrow> c \<noteq> CHR 0x5C \<Longrightarrow> 0x20 \<le> byte c \<Longrightarrow>
     parse_chars (c # r) = prepend [c] (parse_chars r)"
  by simp

lemma parse_chars_safe:
  "htmlSafe c \<Longrightarrow> parse_chars (c # r) = prepend [c] (parse_chars r)"
  by (simp add: htmlSafe_def)

lemma hexval_zero: "hexval (CHR ''0'') = Some 0"
  by (simp add: hexval_def byte_def)

lemma parse_chars_u00:
  assumes "b < 0x80"
  shows "parse_chars (CHR 0x5C # CHR ''u'' # CHR ''0'' # CHR ''0'' # hex (b div 16) # hex (b mod 16) # r)
         = prepend [char_of b] (parse_chars r)"
proof -
  have "hex4 (CHR ''0'') (CHR ''0'') (hex (b div 16)) (hex (b mod 16)) = Some b"
    using assms by (simp add: hex4_def hexval_zero hexval_hex)
  then show ?thesis
    using assms by (simp add: EncodeRune_def)
qed

lemma parse_chars_escape_ascii:
  assumes "byte c < 0x80"
  shows "parse_chars (escape_ascii c @ r) = prepend [c] (parse_chars r)"
proof -
  have u: "parse_chars (CHR 0x5C # CHR ''u'' # CHR ''0'' # CHR ''0'' # hex (byte c div 16)
             # hex (byte c mod 16) # r) = prepend [c] (parse_chars r)"
    using parse_chars_u00 [OF assms] by (simp add: char_of_byte)
  show ?thesis
    unfolding escape_ascii_def
    by (simp add: u unescape_def del: parse_chars.simps)
       (simp add: unescape_def)
qed

subsection \<open>UTF-8: the encoder of code points inverts the decoder\<close>

text \<open>
  The arithmetic of the two-, three- and four-byte forms first, on numbers; then the
  shapes a well-formed sequence can have; then \<open>EncodeRune_DecodeRune\<close>: on a well-formed
  sequence, encoding the decoded code point gives back exactly the bytes that were read.
\<close>

lemma mod_off:
  fixes b k n :: nat
  assumes "k * n \<le> b" "b < k * n + n"
  shows "b mod n = b - k * n"
proof -
  have "b = (b - k * n) + k * n" using assms by simp
  then have "b mod n = ((b - k * n) + k * n) mod n" by simp
  also have "\<dots> = (b - k * n) mod n" by (simp only: mod_mult_self1)
  also have "\<dots> = b - k * n" using assms by simp
  finally show ?thesis .
qed
lemma mod_32_lead2: "(b::nat) \<ge> 192 \<Longrightarrow> b < 224 \<Longrightarrow> b mod 32 = b - 192"
  using mod_off [of 6 32 b] by simp
lemma mod_64_cont: "(b::nat) \<ge> 128 \<Longrightarrow> b < 192 \<Longrightarrow> b mod 64 = b - 128"
  using mod_off [of 2 64 b] by simp
lemma mod_16_lead3: "(b::nat) \<ge> 224 \<Longrightarrow> b < 240 \<Longrightarrow> b mod 16 = b - 224"
  using mod_off [of 14 16 b] by simp
lemma mod_8_lead4: "(b::nat) \<ge> 240 \<Longrightarrow> b < 248 \<Longrightarrow> b mod 8 = b - 240"
  using mod_off [of 30 8 b] by simp
lemma step64:
  fixes q z :: nat
  assumes "z < 64"
  shows "(q * 64 + z) mod 64 = z" and "(q * 64 + z) div 64 = q"
  using assms by simp_all
lemma split3:
  fixes x y z :: nat
  assumes "y < 64" "z < 64"
  shows "(x * 4096 + y * 64 + z) div 4096 = x"
    and "(x * 4096 + y * 64 + z) div 64 mod 64 = y"
    and "(x * 4096 + y * 64 + z) mod 64 = z"
proof -
  let ?r = "x * 4096 + y * 64 + z"
  have e: "?r = (x * 64 + y) * 64 + z" by simp
  show "?r mod 64 = z" by (simp only: e step64 assms)
  have d: "?r div 64 = x * 64 + y" by (simp only: e step64 assms)
  show "?r div 64 mod 64 = y" by (simp only: d step64 assms)
  have "?r div 4096 = ?r div 64 div 64"
    by (simp add: div_mult2_eq [symmetric])
  then show "?r div 4096 = x" by (simp only: d step64 assms)
qed
lemma split4:
  fixes w x y z :: nat
  assumes "x < 64" "y < 64" "z < 64"
  shows "(w * 262144 + x * 4096 + y * 64 + z) div 262144 = w"
    and "(w * 262144 + x * 4096 + y * 64 + z) div 4096 mod 64 = x"
    and "(w * 262144 + x * 4096 + y * 64 + z) div 64 mod 64 = y"
    and "(w * 262144 + x * 4096 + y * 64 + z) mod 64 = z"
proof -
  let ?r = "w * 262144 + x * 4096 + y * 64 + z"
  have e: "?r = ((w * 64 + x) * 64 + y) * 64 + z" by simp
  show "?r mod 64 = z" by (simp only: e step64 assms)
  have d1: "?r div 64 = (w * 64 + x) * 64 + y" by (simp only: e step64 assms)
  show "?r div 64 mod 64 = y" by (simp only: d1 step64 assms)
  have "?r div 4096 = ?r div 64 div 64"
    by (simp add: div_mult2_eq [symmetric])
  then have d2: "?r div 4096 = w * 64 + x" by (simp only: d1 step64 assms)
  show "?r div 4096 mod 64 = x" by (simp only: d2 step64 assms)
  have "?r div 262144 = ?r div 4096 div 64"
    by (simp add: div_mult2_eq [symmetric])
  then show "?r div 262144 = w" by (simp only: d2 step64 assms)
qed

lemma utf8_two:
  fixes b0 b1 :: nat
  assumes "0xC2 \<le> b0" "b0 \<le> 0xDF" "0x80 \<le> b1" "b1 \<le> 0xBF"
  shows "\<not> b0 mod 32 * 64 + b1 mod 64 < 0x80"
    and "b0 mod 32 * 64 + b1 mod 64 < 0x800"
    and "0xC0 + (b0 mod 32 * 64 + b1 mod 64) div 64 = b0"
    and "0x80 + (b0 mod 32 * 64 + b1 mod 64) mod 64 = b1"
proof -
  have x: "b0 mod 32 = b0 - 192" using assms by (simp add: mod_32_lead2)
  have y: "b1 mod 64 = b1 - 128" using assms by (simp add: mod_64_cont)
  have yl: "b1 - 128 < 64" using assms by simp
  show "\<not> b0 mod 32 * 64 + b1 mod 64 < 0x80" unfolding x y using assms by simp
  show "b0 mod 32 * 64 + b1 mod 64 < 0x800" unfolding x y using assms by simp
  show "0xC0 + (b0 mod 32 * 64 + b1 mod 64) div 64 = b0"
    unfolding x y by (simp only: step64 [OF yl]) (use assms in simp)
  show "0x80 + (b0 mod 32 * 64 + b1 mod 64) mod 64 = b1"
    unfolding x y by (simp only: step64 [OF yl]) (use assms in simp)
qed

lemma utf8_three:
  fixes b0 b1 b2 :: nat
  assumes "0xE0 \<le> b0" "b0 \<le> 0xEF"
    and "(if b0 = 0xE0 then 0xA0 else 0x80) \<le> b1" "b1 \<le> (if b0 = 0xED then 0x9F else 0xBF)"
    and "0x80 \<le> b2" "b2 \<le> 0xBF"
  shows "\<not> b0 mod 16 * 4096 + b1 mod 64 * 64 + b2 mod 64 < 0x800"
    and "\<not> (0xD800 \<le> b0 mod 16 * 4096 + b1 mod 64 * 64 + b2 mod 64
            \<and> b0 mod 16 * 4096 + b1 mod 64 * 64 + b2 mod 64 \<le> 0xDFFF)"
    and "b0 mod 16 * 4096 + b1 mod 64 * 64 + b2 mod 64 < 0x10000"
    and "0xE0 + (b0 mod 16 * 4096 + b1 mod 64 * 64 + b2 mod 64) div 4096 = b0"
    and "0x80 + (b0 mod 16 * 4096 + b1 mod 64 * 64 + b2 mod 64) div 64 mod 64 = b1"
    and "0x80 + (b0 mod 16 * 4096 + b1 mod 64 * 64 + b2 mod 64) mod 64 = b2"
proof -
  have b1r: "0x80 \<le> b1" "b1 \<le> 0xBF" using assms(3,4) by (simp_all split: if_splits)
  have x: "b0 mod 16 = b0 - 224" using assms by (simp add: mod_16_lead3)
  have y: "b1 mod 64 = b1 - 128" using b1r by (simp add: mod_64_cont)
  have z: "b2 mod 64 = b2 - 128" using assms by (simp add: mod_64_cont)
  have yl: "b1 - 128 < 64" using b1r by simp
  have zl: "b2 - 128 < 64" using assms by simp
  show "\<not> b0 mod 16 * 4096 + b1 mod 64 * 64 + b2 mod 64 < 0x800"
    unfolding x y z using assms by (simp split: if_splits)
  have "b0 \<le> 236 \<or> b0 = 237 \<or> 238 \<le> b0" by arith
  then show "\<not> (0xD800 \<le> b0 mod 16 * 4096 + b1 mod 64 * 64 + b2 mod 64
            \<and> b0 mod 16 * 4096 + b1 mod 64 * 64 + b2 mod 64 \<le> 0xDFFF)"
    unfolding x y z using assms(2,4,5,6) b1r by (elim disjE) (simp_all split: if_splits, arith)
  show "b0 mod 16 * 4096 + b1 mod 64 * 64 + b2 mod 64 < 0x10000"
    unfolding x y z using assms b1r by simp
  show "0xE0 + (b0 mod 16 * 4096 + b1 mod 64 * 64 + b2 mod 64) div 4096 = b0"
    unfolding x y z by (simp only: split3 [OF yl zl]) (use assms in simp)
  show "0x80 + (b0 mod 16 * 4096 + b1 mod 64 * 64 + b2 mod 64) div 64 mod 64 = b1"
    unfolding x y z by (simp only: split3 [OF yl zl]) (use b1r in simp)
  show "0x80 + (b0 mod 16 * 4096 + b1 mod 64 * 64 + b2 mod 64) mod 64 = b2"
    unfolding x y z by (simp only: split3 [OF yl zl]) (use assms in simp)
qed

lemma utf8_four:
  fixes b0 b1 b2 b3 :: nat
  assumes "0xF0 \<le> b0" "b0 \<le> 0xF4"
    and "(if b0 = 0xF0 then 0x90 else 0x80) \<le> b1" "b1 \<le> (if b0 = 0xF4 then 0x8F else 0xBF)"
    and "0x80 \<le> b2" "b2 \<le> 0xBF" "0x80 \<le> b3" "b3 \<le> 0xBF"
  shows "\<not> b0 mod 8 * 262144 + b1 mod 64 * 4096 + b2 mod 64 * 64 + b3 mod 64 < 0x10000"
    and "\<not> 0x10FFFF < b0 mod 8 * 262144 + b1 mod 64 * 4096 + b2 mod 64 * 64 + b3 mod 64"
    and "0xF0 + (b0 mod 8 * 262144 + b1 mod 64 * 4096 + b2 mod 64 * 64 + b3 mod 64) div 262144 = b0"
    and "0x80 + (b0 mod 8 * 262144 + b1 mod 64 * 4096 + b2 mod 64 * 64 + b3 mod 64) div 4096 mod 64 = b1"
    and "0x80 + (b0 mod 8 * 262144 + b1 mod 64 * 4096 + b2 mod 64 * 64 + b3 mod 64) div 64 mod 64 = b2"
    and "0x80 + (b0 mod 8 * 262144 + b1 mod 64 * 4096 + b2 mod 64 * 64 + b3 mod 64) mod 64 = b3"
proof -
  have b1r: "0x80 \<le> b1" "b1 \<le> 0xBF" using assms(3,4) by (simp_all split: if_splits)
  have w: "b0 mod 8 = b0 - 240" using assms by (simp add: mod_8_lead4)
  have x: "b1 mod 64 = b1 - 128" using b1r by (simp add: mod_64_cont)
  have y: "b2 mod 64 = b2 - 128" using assms by (simp add: mod_64_cont)
  have z: "b3 mod 64 = b3 - 128" using assms by (simp add: mod_64_cont)
  have xl: "b1 - 128 < 64" using b1r by simp
  have yl: "b2 - 128 < 64" using assms by simp
  have zl: "b3 - 128 < 64" using assms by simp
  show "\<not> b0 mod 8 * 262144 + b1 mod 64 * 4096 + b2 mod 64 * 64 + b3 mod 64 < 0x10000"
    unfolding w x y z using assms by (simp split: if_splits)
  show "\<not> 0x10FFFF < b0 mod 8 * 262144 + b1 mod 64 * 4096 + b2 mod 64 * 64 + b3 mod 64"
    unfolding w x y z using assms by (simp split: if_splits)
  show "0xF0 + (b0 mod 8 * 262144 + b1 mod 64 * 4096 + b2 mod 64 * 64 + b3 mod 64) div 262144 = b0"
    unfolding w x y z by (simp only: split4 [OF xl yl zl]) (use assms in simp)
  show "0x80 + (b0 mod 8 * 262144 + b1 mod 64 * 4096 + b2 mod 64 * 64 + b3 mod 64) div 4096 mod 64 = b1"
    unfolding w x y z by (simp only: split4 [OF xl yl zl]) (use b1r in simp)
  show "0x80 + (b0 mod 8 * 262144 + b1 mod 64 * 4096 + b2 mod 64 * 64 + b3 mod 64) div 64 mod 64 = b2"
    unfolding w x y z by (simp only: split4 [OF xl yl zl]) (use assms in simp)
  show "0x80 + (b0 mod 8 * 262144 + b1 mod 64 * 4096 + b2 mod 64 * 64 + b3 mod 64) mod 64 = b3"
    unfolding w x y z by (simp only: split4 [OF xl yl zl]) (use assms in simp)
qed


lemma DecodeRune_valid_cases:
  assumes "0x80 \<le> byte c"
    and "\<not> (fst (DecodeRuneInString (c # cs)) = RuneError \<and> snd (DecodeRuneInString (c # cs)) = 1)"
  obtains
    (two) c1 t where "cs = c1 # t" "0xC2 \<le> byte c" "byte c \<le> 0xDF" "cont c1"
  | (three) c1 c2 t where "cs = c1 # c2 # t" "0xE0 \<le> byte c" "byte c \<le> 0xEF"
      "(if byte c = 0xE0 then 0xA0 else 0x80) \<le> byte c1"
      "byte c1 \<le> (if byte c = 0xED then 0x9F else 0xBF)" "cont c2"
  | (four) c1 c2 c3 t where "cs = c1 # c2 # c3 # t" "0xF0 \<le> byte c" "byte c \<le> 0xF4"
      "(if byte c = 0xF0 then 0x90 else 0x80) \<le> byte c1"
      "byte c1 \<le> (if byte c = 0xF4 then 0x8F else 0xBF)" "cont c2" "cont c3"
proof -
  consider "0xC2 \<le> byte c \<and> byte c \<le> 0xDF" | "0xE0 \<le> byte c \<and> byte c \<le> 0xEF"
    | "0xF0 \<le> byte c \<and> byte c \<le> 0xF4"
    | "\<not> (0xC2 \<le> byte c \<and> byte c \<le> 0xDF) \<and> \<not> (0xE0 \<le> byte c \<and> byte c \<le> 0xEF)
       \<and> \<not> (0xF0 \<le> byte c \<and> byte c \<le> 0xF4)"
    by blast
  then show thesis
  proof cases
    case 1
    with assms obtain c1 t where "cs = c1 # t" "cont c1"
      by (cases cs) (auto simp add: Let_def split: if_splits)
    with 1 show thesis using two by blast
  next
    case 2
    then have n: "\<not> (0xC2 \<le> byte c \<and> byte c \<le> 0xDF)" by simp
    from assms 2 n obtain c1 c2 t where "cs = c1 # c2 # t"
      "(if byte c = 0xE0 then 0xA0 else 0x80) \<le> byte c1"
      "byte c1 \<le> (if byte c = 0xED then 0x9F else 0xBF)" "cont c2"
      by (cases cs; cases "tl cs") (auto simp add: Let_def split: if_splits)
    with 2 show thesis using three by blast
  next
    case 3
    then have n: "\<not> (0xC2 \<le> byte c \<and> byte c \<le> 0xDF)" "\<not> (0xE0 \<le> byte c \<and> byte c \<le> 0xEF)"
      by simp_all
    from assms 3 n obtain c1 c2 c3 t where "cs = c1 # c2 # c3 # t"
      "(if byte c = 0xF0 then 0x90 else 0x80) \<le> byte c1"
      "byte c1 \<le> (if byte c = 0xF4 then 0x8F else 0xBF)" "cont c2" "cont c3"
      by (cases cs; cases "tl cs"; cases "tl (tl cs)") (auto simp add: Let_def split: if_splits)
    with 3 show thesis using four by blast
  next
    case 4
    with assms show thesis by (simp add: Let_def)
  qed
qed


lemma DecodeRune_two:
  assumes "0xC2 \<le> byte c" "byte c \<le> 0xDF" "cont c1"
  shows "DecodeRuneInString (c # c1 # t) = (byte c mod 32 * 64 + byte c1 mod 64, 2)"
  using assms by (simp add: Let_def)

lemma DecodeRune_three:
  assumes "0xE0 \<le> byte c" "byte c \<le> 0xEF"
    "(if byte c = 0xE0 then 0xA0 else 0x80) \<le> byte c1"
    "byte c1 \<le> (if byte c = 0xED then 0x9F else 0xBF)" "cont c2"
  shows "DecodeRuneInString (c # c1 # c2 # t) =
           (byte c mod 16 * 4096 + byte c1 mod 64 * 64 + byte c2 mod 64, 3)"
  using assms by (simp add: Let_def)

lemma DecodeRune_four:
  assumes "0xF0 \<le> byte c" "byte c \<le> 0xF4"
    "(if byte c = 0xF0 then 0x90 else 0x80) \<le> byte c1"
    "byte c1 \<le> (if byte c = 0xF4 then 0x8F else 0xBF)" "cont c2" "cont c3"
  shows "DecodeRuneInString (c # c1 # c2 # c3 # t) =
           (byte c mod 8 * 262144 + byte c1 mod 64 * 4096 + byte c2 mod 64 * 64 + byte c3 mod 64, 4)"
  using assms by (simp add: Let_def)

lemma EncodeRune_DecodeRune:
  assumes "0x80 \<le> byte c"
    and "\<not> (fst (DecodeRuneInString (c # cs)) = RuneError \<and> snd (DecodeRuneInString (c # cs)) = 1)"
  shows "EncodeRune (fst (DecodeRuneInString (c # cs)))
           = c # take (snd (DecodeRuneInString (c # cs)) - 1) cs"
    and "\<forall>x \<in> set (take (snd (DecodeRuneInString (c # cs)) - 1) cs). 0x80 \<le> byte x"
proof -
  have "EncodeRune (fst (DecodeRuneInString (c # cs)))
           = c # take (snd (DecodeRuneInString (c # cs)) - 1) cs
        \<and> (\<forall>x \<in> set (take (snd (DecodeRuneInString (c # cs)) - 1) cs). 0x80 \<le> byte x)"
    using assms
  proof (cases rule: DecodeRune_valid_cases)
    case (two c1 t)
    have c1: "0x80 \<le> byte c1" "byte c1 \<le> 0xBF" using two(4) by (simp_all add: cont_def)
    note a = utf8_two [OF two(2,3) c1]
    let ?r = "byte c mod 32 * 64 + byte c1 mod 64"
    have "EncodeRune ?r = [char_of (0xC0 + ?r div 64), char_of (0x80 + ?r mod 64)]"
      unfolding EncodeRune_def by (simp only: a(1,2) if_False if_True)
    also have "\<dots> = [c, c1]"
      by (simp only: a(3,4) char_of_byte)
    finally have e: "EncodeRune ?r = [c, c1]" .
    show ?thesis
      unfolding two(1) DecodeRune_two [OF two(2,3,4)]
      by (simp add: e c1)
  next
    case (three c1 c2 t)
    have c2: "0x80 \<le> byte c2" "byte c2 \<le> 0xBF" using three(6) by (simp_all add: cont_def)
    have c1: "0x80 \<le> byte c1" using three(4) by (simp split: if_splits)
    note a = utf8_three [OF three(2,3,4,5) c2]
    let ?r = "byte c mod 16 * 4096 + byte c1 mod 64 * 64 + byte c2 mod 64"
    have lo: "\<not> ?r < 0x80" "\<not> 0x10FFFF < ?r"
      using a(1,3) by linarith+
    have "EncodeRune ?r = [char_of (0xE0 + ?r div 4096), char_of (0x80 + ?r div 64 mod 64),
                           char_of (0x80 + ?r mod 64)]"
      unfolding EncodeRune_def by (simp only: a(1,2,3) lo if_False if_True simp_thms)
    also have "\<dots> = [c, c1, c2]"
      by (simp only: a(4,5,6) char_of_byte)
    finally have e: "EncodeRune ?r = [c, c1, c2]" .
    show ?thesis
      unfolding three(1) DecodeRune_three [OF three(2,3,4,5,6)]
      by (simp add: e c1 c2)
  next
    case (four c1 c2 c3 t)
    have c2: "0x80 \<le> byte c2" "byte c2 \<le> 0xBF" using four(6) by (simp_all add: cont_def)
    have c3: "0x80 \<le> byte c3" "byte c3 \<le> 0xBF" using four(7) by (simp_all add: cont_def)
    have c1: "0x80 \<le> byte c1" using four(4) by (simp split: if_splits)
    note a = utf8_four [OF four(2,3,4,5) c2 c3]
    let ?r = "byte c mod 8 * 262144 + byte c1 mod 64 * 4096 + byte c2 mod 64 * 64 + byte c3 mod 64"
    have lo: "\<not> ?r < 0x80" "\<not> ?r < 0x800" "\<not> (0xD800 \<le> ?r \<and> ?r \<le> 0xDFFF)"
      using a(1) by linarith+
    have "EncodeRune ?r = [char_of (0xF0 + ?r div 262144), char_of (0x80 + ?r div 4096 mod 64),
                           char_of (0x80 + ?r div 64 mod 64), char_of (0x80 + ?r mod 64)]"
      unfolding EncodeRune_def by (simp only: a(1,2) lo if_False if_True simp_thms)
    also have "\<dots> = [c, c1, c2, c3]"
      by (simp only: a(3,4,5,6) char_of_byte)
    finally have e: "EncodeRune ?r = [c, c1, c2, c3]" .
    show ?thesis
      unfolding four(1) DecodeRune_four [OF four(2,3,4,5,6,7)]
      by (simp add: e c1 c2 c3)
  qed
  then show "EncodeRune (fst (DecodeRuneInString (c # cs)))
           = c # take (snd (DecodeRuneInString (c # cs)) - 1) cs"
    and "\<forall>x \<in> set (take (snd (DecodeRuneInString (c # cs)) - 1) cs). 0x80 \<le> byte x"
    by simp_all
qed


subsection \<open>Strings\<close>

text \<open>
  \<open>parse_chars_appendString_body\<close>: what the reader gets from an encoded string is the
  string with every byte that starts no well-formed sequence replaced by U+FFFD, and the
  reader stops right after the closing quote. For a valid string that is the string itself
  (\<open>coerce_utf8_valid\<close>).
\<close>

lemma prepend_Nil: "prepend [] r = r"
  by (simp add: prepend_def split: option.split)

lemma high_byte_plain:
  assumes "0x80 \<le> byte x"
  shows "x \<noteq> CHR 0x22" "x \<noteq> CHR 0x5C" "\<not> byte x < 0x20"
  using assms by (auto simp add: byte_def)

lemma parse_chars_high:
  "\<forall>x \<in> set xs. 0x80 \<le> byte x \<Longrightarrow> parse_chars (xs @ r) = prepend xs (parse_chars r)"
proof (induction xs)
  case Nil
  show ?case by (simp add: prepend_Nil)
next
  case (Cons x xs)
  then have x: "0x80 \<le> byte x" and xs: "\<forall>y \<in> set xs. 0x80 \<le> byte y" by simp_all
  have "parse_chars ((x # xs) @ r) = prepend [x] (parse_chars (xs @ r))"
    using high_byte_plain [OF x] by simp
  also have "\<dots> = prepend [x] (prepend xs (parse_chars r))"
    by (simp only: Cons.IH [OF xs])
  finally show ?case by (simp add: prepend_prepend)
qed

lemma char_of_numerals:
  "char_of (239 :: nat) = CHR 0xEF" "char_of (191 :: nat) = CHR 0xBF" "char_of (189 :: nat) = CHR 0xBD"
  using char_of_byte [of "CHR 0xEF"] char_of_byte [of "CHR 0xBF"] char_of_byte [of "CHR 0xBD"]
  by (simp_all add: byte_def)

lemma EncodeRune_RuneError: "EncodeRune RuneError = [CHR 0xEF, CHR 0xBF, CHR 0xBD]"
  by (simp add: EncodeRune_def RuneError_def char_of_numerals)

lemma hexval_letters:
  "hexval (CHR ''f'') = Some 15" "hexval (CHR ''d'') = Some 13" "hexval (CHR ''2'') = Some 2"
  "hexval (CHR ''0'') = Some 0"
  by (simp_all add: hexval_def byte_def)

lemma parse_chars_ufffd:
  "parse_chars (CHR 0x5C # CHR ''u'' # CHR ''f'' # CHR ''f'' # CHR ''f'' # CHR ''d'' # r)
     = prepend [CHR 0xEF, CHR 0xBF, CHR 0xBD] (parse_chars r)"
proof -
  have "hex4 (CHR ''f'') (CHR ''f'') (CHR ''f'') (CHR ''d'') = Some RuneError"
    by (simp add: hex4_def hexval_letters RuneError_def)
  then show ?thesis
    by (simp add: EncodeRune_RuneError [unfolded RuneError_def] RuneError_def)
qed

lemma parse_chars_u202x:
  assumes "r = 0x2028 \<or> r = 0x2029"
  shows "parse_chars (CHR 0x5C # CHR ''u'' # CHR ''2'' # CHR ''0'' # CHR ''2'' # hex (r mod 16) # t)
     = prepend (EncodeRune r) (parse_chars t)"
proof -
  have "hex4 (CHR ''2'') (CHR ''0'') (CHR ''2'') (hex (r mod 16)) = Some r"
    using assms by (auto simp add: hex4_def hexval_letters hexval_hex)
  then show ?thesis
    using assms by auto
qed

lemma parse_chars_appendString_body:
  "parse_chars (appendString_body s @ CHR 0x22 # rest) = Some (coerce_utf8 s, rest)"
proof (induction s rule: appendString_body.induct)
  case 1
  show ?case by simp
next
  case (2 c cs)
  let ?r = "fst (DecodeRuneInString (c # cs))"
  let ?n = "snd (DecodeRuneInString (c # cs))"
  let ?rest = "CHR 0x22 # rest"
  show ?case
  proof (cases "byte c < 0x80")
    case True
    note ascii = this
    have co: "coerce_utf8 (c # cs) = c # coerce_utf8 cs"
      by (simp only: coerce_utf8.simps ascii if_True)
    show ?thesis
    proof (cases "htmlSafe c")
      case True
      have ab: "appendString_body (c # cs) = c # appendString_body cs"
        by (simp only: appendString_body.simps ascii True if_True)
      have "parse_chars (appendString_body (c # cs) @ ?rest)
            = prepend [c] (parse_chars (appendString_body cs @ ?rest))"
        by (simp only: ab append_Cons parse_chars_safe [OF True])
      also have "\<dots> = Some (coerce_utf8 (c # cs), rest)"
        by (simp only: "2.IH"(1) [OF ascii True] prepend_Some co append_Cons append_Nil)
      finally show ?thesis .
    next
      case False
      have ab: "appendString_body (c # cs) = escape_ascii c @ appendString_body cs"
        by (simp only: appendString_body.simps ascii False if_True if_False simp_thms)
      have "parse_chars (appendString_body (c # cs) @ ?rest)
            = prepend [c] (parse_chars (appendString_body cs @ ?rest))"
        by (simp only: ab append_assoc parse_chars_escape_ascii [OF ascii])
      also have "\<dots> = Some (coerce_utf8 (c # cs), rest)"
        by (simp only: "2.IH"(2) [OF ascii False] prepend_Some co append_Cons append_Nil)
      finally show ?thesis .
    qed
  next
    case False
    note high = this
    then have hb: "0x80 \<le> byte c" by simp
    show ?thesis
    proof (cases "?r = RuneError \<and> ?n = 1")
      case True
      have ab: "appendString_body (c # cs)
                = [CHR 0x5C, CHR ''u'', CHR ''f'', CHR ''f'', CHR ''f'', CHR ''d'']
                  @ appendString_body cs"
        by (simp only: appendString_body.simps Let_def high True if_True if_False simp_thms)
      have co: "coerce_utf8 (c # cs) = [CHR 0xEF, CHR 0xBF, CHR 0xBD] @ coerce_utf8 cs"
        by (simp only: coerce_utf8.simps Let_def high True if_True if_False simp_thms)
      have "parse_chars (appendString_body (c # cs) @ ?rest)
            = prepend [CHR 0xEF, CHR 0xBF, CHR 0xBD]
                (parse_chars (appendString_body cs @ ?rest))"
        by (simp only: ab append_Cons append_Nil parse_chars_ufffd)
      also have "\<dots> = Some (coerce_utf8 (c # cs), rest)"
        by (simp only: "2.IH"(3) [OF high refl refl True] prepend_Some co)
      finally show ?thesis .
    next
      case False
      note valid = this
      note ed = EncodeRune_DecodeRune [OF hb valid]
      have co: "coerce_utf8 (c # cs)
                = (c # take (?n - 1) cs) @ coerce_utf8 (drop (?n - 1) cs)"
        by (simp only: coerce_utf8.simps Let_def high valid if_True if_False simp_thms append_Cons)
      show ?thesis
      proof (cases "?r = 0x2028 \<or> ?r = 0x2029")
        case True
        have ab: "appendString_body (c # cs)
                  = [CHR 0x5C, CHR ''u'', CHR ''2'', CHR ''0'', CHR ''2'', hex (?r mod 16)]
                    @ appendString_body (drop (?n - 1) cs)"
          by (simp only: appendString_body.simps Let_def high valid True if_True if_False simp_thms)
        have "parse_chars (appendString_body (c # cs) @ ?rest)
              = prepend (EncodeRune ?r)
                  (parse_chars (appendString_body (drop (?n - 1) cs) @ ?rest))"
          by (simp only: ab append_Cons append_Nil parse_chars_u202x [OF True])
        also have "\<dots> = Some (coerce_utf8 (c # cs), rest)"
          by (simp only: "2.IH"(4) [OF high refl refl valid True] prepend_Some co ed(1))
        finally show ?thesis .
      next
        case False
        have ab: "appendString_body (c # cs)
                  = (c # take (?n - 1) cs) @ appendString_body (drop (?n - 1) cs)"
          by (simp only: appendString_body.simps Let_def high valid False if_True if_False simp_thms
              append_Cons)
        have hi: "\<forall>x \<in> set (c # take (?n - 1) cs). 0x80 \<le> byte x"
          using hb ed(2) by simp
        have "parse_chars (appendString_body (c # cs) @ ?rest)
              = prepend (c # take (?n - 1) cs)
                  (parse_chars (appendString_body (drop (?n - 1) cs) @ ?rest))"
          by (simp only: ab append_assoc parse_chars_high [OF hi])
        also have "\<dots> = Some (coerce_utf8 (c # cs), rest)"
          by (simp only: "2.IH"(5) [OF high refl refl valid False] prepend_Some co)
        finally show ?thesis .
      qed
    qed
  qed
qed

lemma coerce_utf8_valid: "utf8_ValidString s \<Longrightarrow> coerce_utf8 s = s"
proof (induction s rule: coerce_utf8.induct)
  case 1
  show ?case by simp
next
  case (2 c cs)
  let ?r = "fst (DecodeRuneInString (c # cs))"
  let ?n = "snd (DecodeRuneInString (c # cs))"
  show ?case
  proof (cases "byte c < 0x80")
    case True
    from "2.prems" have "utf8_ValidString cs"
      by (simp only: utf8_ValidString.simps True if_True)
    then show ?thesis
      by (simp only: coerce_utf8.simps True if_True "2.IH"(1) [OF True])
  next
    case False
    from "2.prems" have v: "\<not> (?r = RuneError \<and> ?n = 1)" and t: "utf8_ValidString (drop (?n - 1) cs)"
      by (simp_all only: utf8_ValidString.simps False if_False Let_def simp_thms)
    have "coerce_utf8 (c # cs) = c # take (?n - 1) cs @ coerce_utf8 (drop (?n - 1) cs)"
      by (simp only: coerce_utf8.simps Let_def False v if_False simp_thms)
    also have "\<dots> = c # take (?n - 1) cs @ drop (?n - 1) cs"
      by (simp only: "2.IH"(3) [OF False refl refl v t])
    finally show ?thesis by simp
  qed
qed

lemma skip_ws_not_ws: "\<not> is_ws c \<Longrightarrow> skip_ws (c # cs) = c # cs"
  by simp

lemma not_ws:
  "\<not> is_ws (CHR 0x22)" "\<not> is_ws (CHR ''['')" "\<not> is_ws (CHR '']'')" "\<not> is_ws (CHR ''{'')"
  "\<not> is_ws (CHR ''}'')" "\<not> is_ws (CHR '','')" "\<not> is_ws (CHR '':'')" "\<not> is_ws (CHR ''n'')"
  by (simp_all add: is_ws_def)

lemma parse_value_string:
  "parse_value (Suc n) (appendString s @ rest) = Some (json_of_string s, rest)"
  by (simp add: appendString_def not_ws parse_chars_appendString_body json_of_string_def
      del: parse_chars.simps)

lemma parse_value_null:
  "parse_value (Suc n) (''null'' @ rest) = Some (JNull, rest)"
  by (simp add: not_ws)

subsection \<open>Sequences, arrays and objects\<close>

lemma length_commas: "length ts \<le> length (commas ts) + 1"
  by (induction ts rule: commas.induct) simp_all

lemma parse_seq_commas:
  assumes "tvs \<noteq> []" and "length tvs \<le> k" and "close \<noteq> CHR '',''" and "\<not> is_ws close"
    and "\<forall>tv \<in> set tvs. \<forall>r. elem (fst tv @ r) = Some (snd tv, r)"
  shows "parse_seq elem close k (commas (map fst tvs) @ close # rest) = Some (map snd tvs, rest)"
  using assms(1,2,5)
proof (induction tvs arbitrary: k)
  case Nil
  then show ?case by simp
next
  case (Cons tv tvs)
  from Cons.prems(2) obtain k' where k: "k = Suc k'" and k': "length tvs \<le> k'"
    by (cases k) simp_all
  have e: "elem (fst tv @ r) = Some (snd tv, r)" for r
    using Cons.prems(3) by simp
  show ?case
  proof (cases tvs)
    case Nil
    have "parse_seq elem close (Suc k') (fst tv @ close # rest) = Some ([snd tv], rest)"
      using assms(4) by (simp add: e)
    then show ?thesis by (simp add: Nil k)
  next
    case (Cons tv2 tvs2)
    have ih: "parse_seq elem close k' (commas (map fst tvs) @ close # rest) = Some (map snd tvs, rest)"
      using Cons.IH [OF _ k'] Cons.prems(3) Cons by simp
    have c: "commas (map fst (tv # tvs)) @ close # rest
             = fst tv @ (CHR '','' # (commas (map fst tvs) @ close # rest))"
      by (simp add: Cons)
    have "parse_seq elem close (Suc k') (fst tv @ (CHR '','' # (commas (map fst tvs) @ close # rest)))
          = Some (snd tv # map snd tvs, rest)"
      using assms(3) not_ws(6) by (simp add: e ih)
    then show ?thesis unfolding k c by simp
  qed
qed

lemma parse_value_open_bracket:
  "skip_ws cs = d # r \<Longrightarrow> d \<noteq> CHR '']'' \<Longrightarrow>
     parse_value (Suc n) (CHR ''['' # cs) =
       (case parse_seq (parse_value n) (CHR '']'') (length cs) cs of
          None \<Rightarrow> None
        | Some (vs, r') \<Rightarrow> Some (JArray vs, r'))"
  by (simp add: not_ws)

lemma parse_value_open_brace:
  "skip_ws cs = d # r \<Longrightarrow> d \<noteq> CHR ''}'' \<Longrightarrow>
     parse_value (Suc n) (CHR ''{'' # cs) =
       (case parse_seq (parse_member (parse_value n)) (CHR ''}'') (length cs) cs of
          None \<Rightarrow> None
        | Some (ms, r') \<Rightarrow> Some (JObject ms, r'))"
  by (simp add: not_ws)

lemma commas_head:
  "ts \<noteq> [] \<Longrightarrow> hd ts = c # t \<Longrightarrow> \<exists>u. commas ts = c # u"
  by (induction ts rule: commas.induct) simp_all

lemma parse_value_array:
  assumes el: "\<forall>x \<in> set (elems s). \<forall>r. parse_value n (enc x @ r) = Some (tj x, r)"
    and hd: "\<forall>x \<in> set (elems s). \<exists>c t. enc x = c # t \<and> \<not> is_ws c \<and> c \<noteq> CHR '']''"
  shows "parse_value (Suc n) (encode_array enc s @ rest) = Some (json_array tj s, rest)"
proof (cases s)
  case nil_slice
  then show ?thesis
    using parse_value_null [of n rest] by (simp add: encode_array_def json_array_def)
next
  case (Slice xs)
  show ?thesis
  proof (cases xs)
    case Nil
    then show ?thesis
      by (simp add: Slice encode_array_def json_array_def not_ws)
  next
    case (Cons x xs')
    let ?tvs = "map (\<lambda>x. (enc x, tj x)) xs"
    let ?cs = "commas (map enc xs) @ CHR '']'' # rest"
    from hd Slice Cons obtain c t where c: "enc x = c # t" "\<not> is_ws c" "c \<noteq> CHR '']''"
      by auto
    from commas_head [of "map enc xs" c t] Cons c(1) obtain u where u: "commas (map enc xs) = c # u"
      by auto
    have sk: "skip_ws ?cs = c # (u @ CHR '']'' # rest)"
      using c(2) by (simp add: u)
    have f: "map fst ?tvs = map enc xs" and g: "map snd ?tvs = map tj xs"
      by (simp_all add: comp_def)
    have len: "length ?tvs \<le> length ?cs"
      using length_commas [of "map enc xs"] by simp
    have ne: "?tvs \<noteq> []" using Cons by simp
    have ev: "\<forall>tv \<in> set ?tvs. \<forall>r. parse_value n (fst tv @ r) = Some (snd tv, r)"
      using el Slice by auto
    have "parse_seq (parse_value n) (CHR '']'') (length ?cs) (commas (map fst ?tvs) @ CHR '']'' # rest)
          = Some (map snd ?tvs, rest)"
      by (rule parse_seq_commas [OF ne len _ not_ws(3) ev]) simp
    then have ps: "parse_seq (parse_value n) (CHR '']'') (length ?cs) ?cs = Some (map tj xs, rest)"
      by (simp only: f g)
    have "parse_value (Suc n) (CHR ''['' # ?cs) = Some (JArray (map tj xs), rest)"
      by (simp only: parse_value_open_bracket [OF sk c(3)] ps option.case prod.case)
    then show ?thesis
      by (simp add: Slice encode_array_def json_array_def)
  qed
qed

lemma parse_chars_key:
  "\<forall>c \<in> set k. htmlSafe c \<Longrightarrow> parse_chars (k @ CHR 0x22 # r) = Some (k, r)"
proof (induction k)
  case Nil
  show ?case by simp
next
  case (Cons c k)
  then have c: "htmlSafe c" and k: "\<forall>c \<in> set k. htmlSafe c" by simp_all
  have "parse_chars ((c # k) @ CHR 0x22 # r) = prepend [c] (parse_chars (k @ CHR 0x22 # r))"
    by (simp only: append_Cons parse_chars_safe [OF c])
  then show ?case
    by (simp only: Cons.IH [OF k] prepend_Some append_Cons append_Nil)
qed

lemma parse_member_text:
  assumes "\<forall>c \<in> set k. htmlSafe c" and "val (t @ r) = Some (v, r)"
  shows "parse_member val (member_text k t @ r) = Some ((k, v), r)"
  using assms(2)
  by (simp add: parse_member_def member_text_def not_ws parse_chars_key [OF assms(1)]
      del: parse_chars.simps)

lemma parse_value_object:
  assumes ne: "kvs \<noteq> []"
    and keys: "\<forall>kv \<in> set kvs. \<forall>c \<in> set (fst kv). htmlSafe c"
    and vals: "\<forall>kv \<in> set kvs. \<forall>r. parse_value n (fst (snd kv) @ r) = Some (snd (snd kv), r)"
  shows "parse_value (Suc n)
           (CHR ''{'' # commas (map (\<lambda>kv. member_text (fst kv) (fst (snd kv))) kvs) @ CHR ''}'' # rest)
         = Some (JObject (map (\<lambda>kv. (fst kv, snd (snd kv))) kvs), rest)"
proof -
  let ?tvs = "map (\<lambda>kv. (member_text (fst kv) (fst (snd kv)), (fst kv, snd (snd kv)))) kvs"
  let ?ts = "map (\<lambda>kv. member_text (fst kv) (fst (snd kv))) kvs"
  let ?cs = "commas ?ts @ CHR ''}'' # rest"
  have f: "map fst ?tvs = ?ts" and g: "map snd ?tvs = map (\<lambda>kv. (fst kv, snd (snd kv))) kvs"
    by (simp_all add: comp_def)
  from ne obtain kv kvs' where kvs: "kvs = kv # kvs'" by (cases kvs) auto
  have "hd ?ts = CHR 0x22 # (fst kv @ CHR 0x22 # CHR '':'' # fst (snd kv))"
    by (simp add: kvs member_text_def)
  with commas_head [of ?ts] ne obtain u where u: "commas ?ts = CHR 0x22 # u"
    by auto
  have sk: "skip_ws ?cs = CHR 0x22 # (u @ CHR ''}'' # rest)"
    by (simp add: u not_ws)
  have len: "length ?tvs \<le> length ?cs"
    using length_commas [of ?ts] by simp
  have ne': "?tvs \<noteq> []" using ne by simp
  have ev: "\<forall>tv \<in> set ?tvs. \<forall>r. parse_member (parse_value n) (fst tv @ r) = Some (snd tv, r)"
    using keys vals by (auto intro!: parse_member_text)
  have "parse_seq (parse_member (parse_value n)) (CHR ''}'') (length ?cs)
          (commas (map fst ?tvs) @ CHR ''}'' # rest) = Some (map snd ?tvs, rest)"
    by (rule parse_seq_commas [OF ne' len _ not_ws(5) ev]) simp
  then have ps: "parse_seq (parse_member (parse_value n)) (CHR ''}'') (length ?cs) ?cs
                 = Some (map (\<lambda>kv. (fst kv, snd (snd kv))) kvs, rest)"
    by (simp only: f g)
  have q: "CHR 0x22 \<noteq> CHR ''}''" by simp
  show ?thesis
    by (simp only: parse_value_open_brace [OF sk q] ps option.case prod.case)
qed

subsection \<open>The structs of the data model\<close>

text \<open>
  Each level of the data model needs one more unit of fuel than the level below it: a
  string one, an array of strings two, an action three, and so on up to seven for a
  whole result. The text of a result is longer than that.
\<close>

lemma appendString_head: "\<exists>c t. appendString s = c # t \<and> \<not> is_ws c \<and> c \<noteq> CHR '']''"
  by (simp add: appendString_def not_ws)

lemma parse_value_strings:
  "parse_value (Suc (Suc n)) (encode_array appendString s @ rest)
     = Some (json_array json_of_string s, rest)"
proof (rule parse_value_array)
  show "\<forall>x \<in> set (elems s). \<forall>r. parse_value (Suc n) (appendString x @ r) = Some (json_of_string x, r)"
    by (intro ballI allI parse_value_string)
  show "\<forall>x \<in> set (elems s). \<exists>c t. appendString x = c # t \<and> \<not> is_ws c \<and> c \<noteq> CHR '']''"
    by (intro ballI appendString_head)
qed

lemma keys_safe:
  "\<forall>c \<in> set ''name''. htmlSafe c" "\<forall>c \<in> set ''command''. htmlSafe c"
  "\<forall>c \<in> set ''arguments''. htmlSafe c" "\<forall>c \<in> set ''id''. htmlSafe c"
  "\<forall>c \<in> set ''description''. htmlSafe c" "\<forall>c \<in> set ''completion''. htmlSafe c"
  "\<forall>c \<in> set ''icon''. htmlSafe c" "\<forall>c \<in> set ''actions''. htmlSafe c"
  "\<forall>c \<in> set ''items''. htmlSafe c"
  by (simp_all add: htmlSafe_def byte_def)

lemma encode_QueryAction_members:
  "encode_QueryAction a @ rest =
     CHR ''{'' # commas (map (\<lambda>kv. member_text (fst kv) (fst (snd kv)))
       [(''name'', appendString (QueryAction.Name a), json_of_string (QueryAction.Name a)),
        (''command'', appendString (Command a), json_of_string (Command a)),
        (''arguments'', encode_array appendString (Arguments a),
           json_array json_of_string (Arguments a))]) @ CHR ''}'' # rest"
  by (simp add: encode_QueryAction_def member_text_def)

lemma parse_value_QueryAction:
  "parse_value (Suc (Suc (Suc n))) (encode_QueryAction a @ rest)
     = Some (json_of_QueryAction a, rest)"
proof -
  let ?kvs = "[(''name'', appendString (QueryAction.Name a), json_of_string (QueryAction.Name a)),
        (''command'', appendString (Command a), json_of_string (Command a)),
        (''arguments'', encode_array appendString (Arguments a),
           json_array json_of_string (Arguments a))]"
  have "parse_value (Suc (Suc (Suc n)))
          (CHR ''{'' # commas (map (\<lambda>kv. member_text (fst kv) (fst (snd kv))) ?kvs) @ CHR ''}'' # rest)
        = Some (JObject (map (\<lambda>kv. (fst kv, snd (snd kv))) ?kvs), rest)"
  proof (rule parse_value_object)
    show "?kvs \<noteq> []" by simp
    show "\<forall>kv \<in> set ?kvs. \<forall>c \<in> set (fst kv). htmlSafe c"
      using keys_safe by simp
    show "\<forall>kv \<in> set ?kvs. \<forall>r. parse_value (Suc (Suc n)) (fst (snd kv) @ r) = Some (snd (snd kv), r)"
      by (simp add: parse_value_string parse_value_strings del: parse_value.simps)
  qed
  then show ?thesis
    unfolding encode_QueryAction_members json_of_QueryAction_def
    by (simp del: parse_value.simps)
qed

lemma encode_QueryAction_head:
  "\<exists>c t. encode_QueryAction a = c # t \<and> \<not> is_ws c \<and> c \<noteq> CHR '']''"
  by (simp add: encode_QueryAction_def not_ws)

lemma parse_value_QueryActions:
  "parse_value (Suc (Suc (Suc (Suc n)))) (encode_array encode_QueryAction s @ rest)
     = Some (json_array json_of_QueryAction s, rest)"
proof (rule parse_value_array)
  show "\<forall>x \<in> set (elems s). \<forall>r. parse_value (Suc (Suc (Suc n))) (encode_QueryAction x @ r)
          = Some (json_of_QueryAction x, r)"
    by (intro ballI allI parse_value_QueryAction)
  show "\<forall>x \<in> set (elems s). \<exists>c t. encode_QueryAction x = c # t \<and> \<not> is_ws c \<and> c \<noteq> CHR '']''"
    by (intro ballI encode_QueryAction_head)
qed

lemma encode_QueryItem_members:
  "encode_QueryItem i @ rest =
     CHR ''{'' # commas (map (\<lambda>kv. member_text (fst kv) (fst (snd kv)))
       [(''id'', appendString (ID i), json_of_string (ID i)),
        (''name'', appendString (QueryItem.Name i), json_of_string (QueryItem.Name i)),
        (''description'', appendString (Description i), json_of_string (Description i)),
        (''completion'', appendString (Completion i), json_of_string (Completion i)),
        (''icon'', appendString (Icon i), json_of_string (Icon i)),
        (''actions'', encode_array encode_QueryAction (Actions i),
           json_array json_of_QueryAction (Actions i))]) @ CHR ''}'' # rest"
  by (simp add: encode_QueryItem_def member_text_def)

lemma parse_value_QueryItem:
  "parse_value (Suc (Suc (Suc (Suc (Suc n))))) (encode_QueryItem i @ rest)
     = Some (json_of_QueryItem i, rest)"
proof -
  let ?kvs = "[(''id'', appendString (ID i), json_of_string (ID i)),
        (''name'', appendString (QueryItem.Name i), json_of_string (QueryItem.Name i)),
        (''description'', appendString (Description i), json_of_string (Description i)),
        (''completion'', appendString (Completion i), json_of_string (Completion i)),
        (''icon'', appendString (Icon i), json_of_string (Icon i)),
        (''actions'', encode_array encode_QueryAction (Actions i),
           json_array json_of_QueryAction (Actions i))]"
  have "parse_value (Suc (Suc (Suc (Suc (Suc n)))))
          (CHR ''{'' # commas (map (\<lambda>kv. member_text (fst kv) (fst (snd kv))) ?kvs) @ CHR ''}'' # rest)
        = Some (JObject (map (\<lambda>kv. (fst kv, snd (snd kv))) ?kvs), rest)"
  proof (rule parse_value_object)
    show "?kvs \<noteq> []" by simp
    show "\<forall>kv \<in> set ?kvs. \<forall>c \<in> set (fst kv). htmlSafe c"
      using keys_safe by simp
    show "\<forall>kv \<in> set ?kvs. \<forall>r. parse_value (Suc (Suc (Suc (Suc n)))) (fst (snd kv) @ r)
            = Some (snd (snd kv), r)"
      by (simp add: parse_value_string parse_value_QueryActions del: parse_value.simps)
  qed
  then show ?thesis
    unfolding encode_QueryItem_members json_of_QueryItem_def
    by (simp del: parse_value.simps)
qed

lemma encode_QueryItem_head:
  "\<exists>c t. encode_QueryItem i = c # t \<and> \<not> is_ws c \<and> c \<noteq> CHR '']''"
  by (simp add: encode_QueryItem_def not_ws)

lemma parse_value_QueryItems:
  "parse_value (Suc (Suc (Suc (Suc (Suc (Suc n)))))) (encode_array encode_QueryItem s @ rest)
     = Some (json_array json_of_QueryItem s, rest)"
proof (rule parse_value_array)
  show "\<forall>x \<in> set (elems s). \<forall>r. parse_value (Suc (Suc (Suc (Suc (Suc n))))) (encode_QueryItem x @ r)
          = Some (json_of_QueryItem x, r)"
    by (intro ballI allI parse_value_QueryItem)
  show "\<forall>x \<in> set (elems s). \<exists>c t. encode_QueryItem x = c # t \<and> \<not> is_ws c \<and> c \<noteq> CHR '']''"
    by (intro ballI encode_QueryItem_head)
qed

lemma encode_QueryResult_members:
  "encode_QueryResult q @ rest =
     CHR ''{'' # commas (map (\<lambda>kv. member_text (fst kv) (fst (snd kv)))
       [(''items'', encode_array encode_QueryItem (Items q),
           json_array json_of_QueryItem (Items q))]) @ CHR ''}'' # rest"
  by (simp add: encode_QueryResult_def member_text_def)

lemma parse_value_QueryResult:
  "parse_value (Suc (Suc (Suc (Suc (Suc (Suc (Suc n))))))) (encode_QueryResult q @ rest)
     = Some (json_of_QueryResult q, rest)"
proof -
  let ?kvs = "[(''items'', encode_array encode_QueryItem (Items q),
           json_array json_of_QueryItem (Items q))]"
  have "parse_value (Suc (Suc (Suc (Suc (Suc (Suc (Suc n)))))))
          (CHR ''{'' # commas (map (\<lambda>kv. member_text (fst kv) (fst (snd kv))) ?kvs) @ CHR ''}'' # rest)
        = Some (JObject (map (\<lambda>kv. (fst kv, snd (snd kv))) ?kvs), rest)"
  proof (rule parse_value_object)
    show "?kvs \<noteq> []" by simp
    show "\<forall>kv \<in> set ?kvs. \<forall>c \<in> set (fst kv). htmlSafe c"
      using keys_safe by simp
    show "\<forall>kv \<in> set ?kvs. \<forall>r. parse_value (Suc (Suc (Suc (Suc (Suc (Suc n)))))) (fst (snd kv) @ r)
            = Some (snd (snd kv), r)"
      by (simp add: parse_value_QueryItems del: parse_value.simps)
  qed
  then show ?thesis
    unfolding encode_QueryResult_members json_of_QueryResult_def
    by (simp del: parse_value.simps)
qed

lemma at_least_seven:
  assumes "7 \<le> (k::nat)"
  shows "\<exists>n. k = Suc (Suc (Suc (Suc (Suc (Suc (Suc n))))))"
proof
  show "k = Suc (Suc (Suc (Suc (Suc (Suc (Suc (k - 7)))))))"
    using assms by simp
qed

lemma parse_json_QueryResult:
  assumes "skip_ws ws = []"
  shows "parse_json (encode_QueryResult q @ ws) = Some (json_of_QueryResult q)"
proof -
  have "7 \<le> length (encode_QueryResult q @ ws)"
    by (simp add: encode_QueryResult_def)
  then obtain n where n: "length (encode_QueryResult q @ ws) = Suc (Suc (Suc (Suc (Suc (Suc (Suc n))))))"
    using at_least_seven by blast
  show ?thesis
    unfolding parse_json_def n parse_value_QueryResult using assms by simp
qed

subsection \<open>Binding and the round trip\<close>

text \<open>
  \<open>decode_encode_QueryResult\<close> holds for every QueryResult, valid or not: what is read
  back is the value with its strings coerced to valid UTF-8.
\<close>

lemma to_string_json: "to_string (json_of_string s) = Some (coerce_utf8 s)"
  by (simp add: to_string_def json_of_string_def)

lemma those_map:
  "\<forall>x \<in> set xs. f (tj x) = Some (g x) \<Longrightarrow> those (map (f \<circ> tj) xs) = Some (map g xs)"
  by (induction xs) simp_all

lemma to_slice_json_array:
  "\<forall>x \<in> set (elems s). f (tj x) = Some (g x) \<Longrightarrow>
     to_slice f (json_array tj s) = Some (map_slice g s)"
  by (cases s) (simp_all add: to_slice_def json_array_def map_slice_def those_map)

lemma member_first: "member k ((k, v) # []) = v"
  by (simp add: member_def)

lemma to_QueryAction_json: "to_QueryAction (json_of_QueryAction a) = Some (coerce_QueryAction a)"
proof -
  have s: "to_slice to_string (json_array json_of_string (Arguments a))
           = Some (map_slice coerce_utf8 (Arguments a))"
    by (rule to_slice_json_array) (simp add: to_string_json)
  show ?thesis
    by (simp add: to_QueryAction_def json_of_QueryAction_def member_def to_string_json s
        coerce_QueryAction_def)
qed

lemma to_QueryItem_json: "to_QueryItem (json_of_QueryItem i) = Some (coerce_QueryItem i)"
proof -
  have s: "to_slice to_QueryAction (json_array json_of_QueryAction (Actions i))
           = Some (map_slice coerce_QueryAction (Actions i))"
    by (rule to_slice_json_array) (simp add: to_QueryAction_json)
  show ?thesis
    by (simp add: to_QueryItem_def json_of_QueryItem_def member_def to_string_json s
        coerce_QueryItem_def)
qed

lemma to_QueryResult_json: "to_QueryResult (json_of_QueryResult q) = Some (coerce_QueryResult q)"
proof -
  have s: "to_slice to_QueryItem (json_array json_of_QueryItem (Items q))
           = Some (map_slice coerce_QueryItem (Items q))"
    by (rule to_slice_json_array) (simp add: to_QueryItem_json)
  show ?thesis
    by (simp add: to_QueryResult_def json_of_QueryResult_def member_def s coerce_QueryResult_def)
qed

lemma decode_encode_QueryResult:
  "skip_ws ws = [] \<Longrightarrow>
     decode_QueryResult (encode_QueryResult q @ ws) = Some (coerce_QueryResult q)"
  by (simp add: decode_QueryResult_def parse_json_QueryResult to_QueryResult_json)

lemma map_slice_ident: "\<forall>x \<in> set (elems s). g x = x \<Longrightarrow> map_slice g s = s"
  by (cases s) (simp_all add: map_slice_def map_idI)

lemma coerce_QueryAction_valid: "valid_QueryAction a \<Longrightarrow> coerce_QueryAction a = a"
  by (simp add: valid_QueryAction_def coerce_QueryAction_def coerce_utf8_valid
      map_slice_ident list_all_iff)

lemma coerce_QueryItem_valid: "valid_QueryItem i \<Longrightarrow> coerce_QueryItem i = i"
  by (simp add: valid_QueryItem_def coerce_QueryItem_def coerce_utf8_valid
      coerce_QueryAction_valid map_slice_ident list_all_iff)

lemma coerce_QueryResult_valid: "valid_QueryResult q \<Longrightarrow> coerce_QueryResult q = q"
  by (simp add: valid_QueryResult_def coerce_QueryResult_def coerce_QueryItem_valid
      map_slice_ident list_all_iff)

lemma utf8_ValidString_ascii: "\<forall>c \<in> set s. byte c < 0x80 \<Longrightarrow> utf8_ValidString s"
  by (induction s) simp_all

lemma RunOp_Query_output:
  assumes "QueryCallback p = Some cb" and "cb (Getenv w ''ALBERT_QUERY'') w = ((res, None), w1)"
    and "sink_fault w1 (Output p) = None"
  shows "RunOp p ''QUERY'' w =
           (None, p, w1\<lparr>sink := (sink w1)(Output p := sink w1 (Output p)
                          @ encode_QueryResult res @ [CHR 0x0A])\<rparr>)"
  using assms
  by (simp add: RunOp_Query DefaultPlugin_Query_def Encoder_Encode_def Marshal_QueryResult_def
      Write_ok)


section \<open>The claims\<close>

text \<open>
  C1. For each of the seven operations, an unregistered hook resolves to that
  operation's own built-in default and never to another operation's. The second revision
  of \<open>Start\<close> does so (\<open>Start_Name_default\<close> and its siblings above). The first revision
  does not: every fallback branch calls the Metadata default. Evaluated with no hook
  registered and the name set to \<open>demo\<close>: for the operation \<open>NAME\<close> the process writes
  the metadata object, not the name, and for \<open>INITIALIZE\<close> it writes the same object,
  where the default of that operation writes nothing.
\<close>

theorem Start_v0_fallback_runs_Metadata_default:
  \<open>fst (Start_v0 rq no_hooks_v0
          (SetInfo ''demo'' ''0.1'' ''a'' (process_start_with ''NAME'' [] pluginMetadata_init_v0)))
     = Exit 0
   \<and> sink (snd (Start_v0 rq no_hooks_v0
          (SetInfo ''demo'' ''0.1'' ''a'' (process_start_with ''NAME'' [] pluginMetadata_init_v0))))
        os_Stdout
     = ''{"iid":"","name":"demo","version":"0.1","author":"a","dependencies":null,"trigger":""}''
   \<and> sink (snd (Start_v0 rq no_hooks_v0
          (SetInfo ''demo'' ''0.1'' ''a''
            (process_start_with ''INITIALIZE'' [] pluginMetadata_init_v0))))
        os_Stdout
     = ''{"iid":"","name":"demo","version":"0.1","author":"a","dependencies":null,"trigger":""}''\<close>
proof -
  have m: \<open>encode_Metadata (pluginMetadata (SetInfo ''demo'' ''0.1'' ''a''
             (process_start_with op [] pluginMetadata_init_v0)))
           = ''{"iid":"","name":"demo","version":"0.1","author":"a","dependencies":null,"trigger":""}''\<close>
    for op
    by (simp add: SetInfo_def process_start_with_simps pluginMetadata_init_v0_def
        encode_Metadata_def encode_array_def appendString_samples)
  have a: "Start_v0 rq no_hooks_v0
             (SetInfo ''demo'' ''0.1'' ''a'' (process_start_with op [] pluginMetadata_init_v0))
           = (Exit 0, fmt_Print (encode_Metadata (pluginMetadata (SetInfo ''demo'' ''0.1'' ''a''
                 (process_start_with op [] pluginMetadata_init_v0))))
               (SetInfo ''demo'' ''0.1'' ''a'' (process_start_with op [] pluginMetadata_init_v0)))"
    if "op \<in> set recognized_ops" for op
    by (rule Start_v0_fallback [OF _ that refl])
       (simp add: setters_frame process_start_with_simps)
  have n: "''NAME'' \<in> set recognized_ops" and i: "''INITIALIZE'' \<in> set recognized_ops"
    by (simp_all add: recognized_ops_iff)
  show ?thesis
    unfolding a [OF n] a [OF i] m
    by (simp add: fmt_Print_ok setters_frame process_start_with_simps)
qed

text \<open>
  C2. For every operation selector outside the seven, the empty string included, the
  dispatcher exits with code 255, writes nothing to standard output, and the failure can
  be told from a business-logic failure. As stated this fails for \<open>Start\<close>, whose switch
  has no default branch: on the empty selector it returns to its caller and never exits.
\<close>

theorem Start_empty_selector_returns:
  "fst (Start no_hooks (process_start_with [] [] pluginMetadata_init)) = Returned
   \<and> fst (Start no_hooks (process_start_with [] [] pluginMetadata_init)) \<noteq> Exit 255"
  by (simp add: Start_unknown process_start_with_simps recognized_ops_iff)

text \<open>
  C2, amended. For every selector outside the seven: \<open>Run\<close> over \<open>DefaultPlugin.RunOp\<close>
  exits with code 255, writes to no sink, and logs a warning that names the selector; the
  error \<open>RunOp\<close> returns differs from the one the built-in Query returns for a plugin
  without a callback. \<open>Start\<close> writes nothing, changes nothing and returns to its caller
  without exiting.
\<close>

theorem unknown_operation:
  assumes "Getenv w ''ALBERT_OP'' \<notin> set recognized_ops"
    and "Getenv s ''ALBERT_OP'' \<notin> set recognized_ops"
  shows "Run (as_Plugin p) w =
           (255, glog_Warning (''error (code=255): unknown albert op '' @ [CHR 0x27]
                                @ Getenv w ''ALBERT_OP'' @ [CHR 0x27]) w)
         \<and> sink (snd (Run (as_Plugin p) w)) = sink w
         \<and> (QueryCallback p' = None \<longrightarrow>
              fst (RunOp p (Getenv w ''ALBERT_OP'') w) \<noteq> snd (fst (DefaultPlugin_Query p' q w')))
         \<and> Start h s = (Returned, s)"
proof -
  let ?op = "Getenv w ''ALBERT_OP''"
  let ?e = "errorString (''unknown albert op '' @ [CHR 0x27] @ ?op @ [CHR 0x27])"
  have r: "as_Plugin p ?op w = (Some (AlbertError ?e 255), w)"
    by (simp add: as_Plugin_def RunOp_unknown [OF assms(1)])
  have run: "Run (as_Plugin p) w =
      (255, glog_Warning (''error (code=255): unknown albert op '' @ [CHR 0x27] @ ?op @ [CHR 0x27]) w)"
    using Run_AlbertError [where plugin = "as_Plugin p" and w = w, OF r] by (simp add: itoa_255)
  have quiet: "sink (snd (Run (as_Plugin p) w)) = sink w"
    by (simp add: run glog_Warning_def)
  have differ: "QueryCallback p' = None \<longrightarrow>
      fst (RunOp p ?op w) \<noteq> snd (fst (DefaultPlugin_Query p' q w'))"
    by (simp add: RunOp_unknown [OF assms(1)] DefaultPlugin_Query_def)
  show ?thesis
    using run quiet differ Start_unknown [OF assms(2)] by blast
qed

theorem unknown_operation_witness:
  "Getenv (process_start ''BOGUS'' []) ''ALBERT_OP'' \<notin> set recognized_ops
   \<and> Getenv (process_start_with [] [] pluginMetadata_init) ''ALBERT_OP'' \<notin> set recognized_ops
   \<and> QueryCallback (NewPlugin ''demo'' ''0.1'' ''a'' ''t'' None) = None
   \<and> fst (Run (as_Plugin (NewPlugin ''demo'' ''0.1'' ''a'' ''t'' None)) (process_start ''BOGUS'' [])) = 255
   \<and> glog_warnings (snd (Run (as_Plugin (NewPlugin ''demo'' ''0.1'' ''a'' ''t'' None))
                           (process_start ''BOGUS'' [])))
       = [''error (code=255): unknown albert op '' @ [CHR 0x27] @ ''BOGUS'' @ [CHR 0x27]]
   \<and> sink (snd (Run (as_Plugin (NewPlugin ''demo'' ''0.1'' ''a'' ''t'' None))
                  (process_start ''BOGUS'' []))) os_Stdout = []
   \<and> fst (RunOp (NewPlugin ''demo'' ''0.1'' ''a'' ''t'' None) ''BOGUS'' (process_start ''BOGUS'' []))
       \<noteq> snd (fst (DefaultPlugin_Query (NewPlugin ''demo'' ''0.1'' ''a'' ''t'' None) ''x''
                       (process_start ''QUERY'' ''x'')))
   \<and> Start no_hooks (process_start_with [] [] pluginMetadata_init)
       = (Returned, process_start_with [] [] pluginMetadata_init)"
proof -
  have h1: "Getenv (process_start ''BOGUS'' []) ''ALBERT_OP'' \<notin> set recognized_ops"
    by (simp add: process_start_simps recognized_ops_iff)
  have h2: "Getenv (process_start_with [] [] pluginMetadata_init) ''ALBERT_OP'' \<notin> set recognized_ops"
    by (simp add: process_start_with_simps recognized_ops_iff)
  have h3: "QueryCallback (NewPlugin ''demo'' ''0.1'' ''a'' ''t'' None) = None"
    by (simp add: NewPlugin_def)
  show ?thesis
    using h1 h2 h3
      unknown_operation [OF h1 h2, of "NewPlugin ''demo'' ''0.1'' ''a'' ''t'' None"
        "NewPlugin ''demo'' ''0.1'' ''a'' ''t'' None" "''x''" "process_start ''QUERY'' ''x''" no_hooks]
    by (simp add: glog_Warning_def process_start_simps)
qed

text \<open>
  C3. \<open>Run\<close> exits with the code the error of the operation carries when that error is
  an \<open>AlbertError\<close>, with 255 for any other error, and with 0 when there is no error. The
  exit code is the argument \<open>Run\<close> gives to \<open>os.Exit\<close>.
\<close>

theorem Run_exit_code:
  "fst (Run plugin w) =
     (case fst (plugin (Getenv w ''ALBERT_OP'') w) of
        None \<Rightarrow> 0
      | Some (AlbertError e code) \<Rightarrow> code
      | Some (errorString m) \<Rightarrow> 255)"
  by (simp add: Run_def Let_def split: prod.splits option.splits error.splits)

text \<open>
  C4. Without a Query behaviour from the author, the operation \<open>QUERY\<close> reports status
  255, writes no result payload and logs a warning. As stated this fails for \<open>Start\<close>:
  \<open>handleQueryResult\<close> prints the encoding of the empty result before it exits.
\<close>

theorem Start_default_query_writes_payload:
  \<open>sink (snd (Start no_hooks (process_start_with ''QUERY'' ''x'' pluginMetadata_init))) os_Stdout
     = ''{"items":null}''
   \<and> sink (snd (Start no_hooks (process_start_with ''QUERY'' ''x'' pluginMetadata_init))) os_Stdout
     \<noteq> []\<close>
  by (simp add: Start_Query_default no_hooks_def process_start_with_simps fmt_Print_ok
      glog_Warning_def)

text \<open>
  C4, amended. Without a Query behaviour, the operation \<open>QUERY\<close> ends with status 255
  and a warning in the log in both dispatchers. \<open>Run\<close> over \<open>DefaultPlugin.RunOp\<close> writes
  to no sink; \<open>Start\<close> writes the encoding of the empty result, \<open>{"items":null}\<close>, to
  standard output.
\<close>

theorem missing_query_behaviour:
  assumes "QueryCallback p = None" and "Getenv w ''ALBERT_OP'' = ''QUERY''"
    and "HookSet.Query h = None" and "Getenv s ''ALBERT_OP'' = ''QUERY''"
  shows \<open>Run (as_Plugin p) w =
           (255, glog_Warning (''error (code=255): no behavior defined for query '' @ [CHR 0x27]
                                @ Getenv w ''ALBERT_QUERY'' @ [CHR 0x27]) w)
         \<and> sink (snd (Run (as_Plugin p) w)) = sink w
         \<and> Start h s =
           (Exit 255, fmt_Print ''{"items":null}'' (glog_Warning ''Must implement Query behavior'' s))\<close>
proof -
  let ?e = "errorString (''no behavior defined for query '' @ [CHR 0x27]
                          @ Getenv w ''ALBERT_QUERY'' @ [CHR 0x27])"
  have r: "as_Plugin p (Getenv w ''ALBERT_OP'') w = (Some (AlbertError ?e 255), w)"
    by (simp add: assms(1,2) as_Plugin_def RunOp_Query DefaultPlugin_Query_def)
  have run: "Run (as_Plugin p) w =
      (255, glog_Warning (''error (code=255): no behavior defined for query '' @ [CHR 0x27]
                           @ Getenv w ''ALBERT_QUERY'' @ [CHR 0x27]) w)"
    using Run_AlbertError [where plugin = "as_Plugin p" and w = w, OF r] by (simp add: itoa_255)
  have quiet: "sink (snd (Run (as_Plugin p) w)) = sink w"
    by (simp add: run glog_Warning_def)
  show ?thesis
    using run quiet Start_Query_default [OF assms(4,3)] by blast
qed

theorem missing_query_behaviour_witness:
  \<open>QueryCallback (NewPlugin ''demo'' ''0.1'' ''a'' ''t'' None) = None
   \<and> Getenv (process_start ''QUERY'' ''x'') ''ALBERT_OP'' = ''QUERY''
   \<and> HookSet.Query no_hooks = None
   \<and> Getenv (process_start_with ''QUERY'' ''x'' pluginMetadata_init) ''ALBERT_OP'' = ''QUERY''
   \<and> fst (Run (as_Plugin (NewPlugin ''demo'' ''0.1'' ''a'' ''t'' None)) (process_start ''QUERY'' ''x''))
       = 255
   \<and> sink (snd (Run (as_Plugin (NewPlugin ''demo'' ''0.1'' ''a'' ''t'' None))
                  (process_start ''QUERY'' ''x''))) os_Stdout = []
   \<and> glog_warnings (snd (Run (as_Plugin (NewPlugin ''demo'' ''0.1'' ''a'' ''t'' None))
                           (process_start ''QUERY'' ''x'')))
       = [''error (code=255): no behavior defined for query '' @ [CHR 0x27] @ ''x'' @ [CHR 0x27]]
   \<and> fst (Start no_hooks (process_start_with ''QUERY'' ''x'' pluginMetadata_init)) = Exit 255
   \<and> glog_warnings (snd (Start no_hooks (process_start_with ''QUERY'' ''x'' pluginMetadata_init)))
       = [''Must implement Query behavior'']\<close>
proof -
  have h1: "QueryCallback (NewPlugin ''demo'' ''0.1'' ''a'' ''t'' None) = None"
    by (simp add: NewPlugin_def)
  have h2: "Getenv (process_start ''QUERY'' ''x'') ''ALBERT_OP'' = ''QUERY''"
    by (simp add: process_start_simps)
  have h3: "HookSet.Query no_hooks = None"
    by (simp add: no_hooks_def)
  have h4: "Getenv (process_start_with ''QUERY'' ''x'' pluginMetadata_init) ''ALBERT_OP'' = ''QUERY''"
    by (simp add: process_start_with_simps)
  show ?thesis
    using h1 h2 h3 h4 missing_query_behaviour [OF h1 h2 h3 h4]
    by (simp add: glog_Warning_def process_start_simps process_start_with_simps fmt_Print_ok)
qed

text \<open>
  C5. The operation \<open>METADATA\<close> on the metadata of the scenario writes exactly the JSON
  object to standard output, with no trailing newline, and exits with 0. As stated this
  fails for \<open>DefaultPlugin.RunOp\<close>: \<open>Encoder.Encode\<close> ends its output with a newline
  character.
\<close>

theorem RunOp_Metadata_trailing_newline:
  \<open>sink (snd (Run (as_Plugin (NewPlugin ''demo'' ''0.1'' ''a'' ''t'' None))
                 (process_start ''METADATA'' []))) os_Stdout
     = ''{"iid":"org.albert.extension.external/v2.0","name":"demo","version":"0.1","author":"a","dependencies":[],"trigger":"t"}'' @ [CHR 0x0A]
   \<and> sink (snd (Run (as_Plugin (NewPlugin ''demo'' ''0.1'' ''a'' ''t'' None))
                 (process_start ''METADATA'' []))) os_Stdout
     \<noteq> ''{"iid":"org.albert.extension.external/v2.0","name":"demo","version":"0.1","author":"a","dependencies":[],"trigger":"t"}''\<close>
proof -
  have r: "as_Plugin (NewPlugin ''demo'' ''0.1'' ''a'' ''t'' None)
             (Getenv (process_start ''METADATA'' []) ''ALBERT_OP'') (process_start ''METADATA'' [])
           = (None, snd (Write os_Stdout
                (encode_Metadata (Meta (NewPlugin ''demo'' ''0.1'' ''a'' ''t'' None)) @ [CHR 0x0A])
                (process_start ''METADATA'' [])))"
    by (simp add: as_Plugin_def process_start_simps RunOp_Metadata Encoder_Encode_def
        Marshal_Metadata_def DefaultPlugin_Metadata_def Write_ok NewPlugin_def)
  have run: "Run (as_Plugin (NewPlugin ''demo'' ''0.1'' ''a'' ''t'' None)) (process_start ''METADATA'' [])
           = (0, snd (Write os_Stdout
                (encode_Metadata (Meta (NewPlugin ''demo'' ''0.1'' ''a'' ''t'' None)) @ [CHR 0x0A])
                (process_start ''METADATA'' [])))"
    by (rule Run_no_error [where plugin = "as_Plugin (NewPlugin ''demo'' ''0.1'' ''a'' ''t'' None)", OF r])
  show ?thesis
    unfolding run
    by (simp add: Write_ok process_start_simps NewPlugin_def defaultProtocolVersion_def scenario_wire)
qed

text \<open>
  C5, amended. On the metadata of the scenario and a standard output that takes the
  write, the operation \<open>METADATA\<close> exits with 0 in both dispatchers. \<open>Start\<close> (no Metadata
  hook registered) writes exactly the JSON object; \<open>Run\<close> over \<open>DefaultPlugin.RunOp\<close>
  writes the same object followed by one newline character.
\<close>

theorem metadata_scenario:
  assumes "Getenv w ''ALBERT_OP'' = ''METADATA''" and "sink_fault w os_Stdout = None"
    and "Getenv s ''ALBERT_OP'' = ''METADATA''" and "sink_fault s os_Stdout = None"
    and "HookSet.Metadata h = None"
    and "pluginMetadata s =
           \<lparr>IID = protocolVersion, Metadata.Name = ''demo'', Version = ''0.1'', Author = ''a'',
            Dependencies = Slice [], Trigger = ''t''\<rparr>"
  shows \<open>Run (as_Plugin (NewPlugin ''demo'' ''0.1'' ''a'' ''t'' qc)) w =
           (0, w\<lparr>sink := (sink w)(os_Stdout := sink w os_Stdout
                   @ ''{"iid":"org.albert.extension.external/v2.0","name":"demo","version":"0.1","author":"a","dependencies":[],"trigger":"t"}'' @ [CHR 0x0A])\<rparr>)
         \<and> Start h s =
           (Exit 0, s\<lparr>sink := (sink s)(os_Stdout := sink s os_Stdout
                   @ ''{"iid":"org.albert.extension.external/v2.0","name":"demo","version":"0.1","author":"a","dependencies":[],"trigger":"t"}'')\<rparr>)\<close>
proof -
  have r: "as_Plugin (NewPlugin ''demo'' ''0.1'' ''a'' ''t'' qc) (Getenv w ''ALBERT_OP'') w
           = (None, w\<lparr>sink := (sink w)(os_Stdout := sink w os_Stdout
                @ encode_Metadata (Meta (NewPlugin ''demo'' ''0.1'' ''a'' ''t'' qc)) @ [CHR 0x0A])\<rparr>)"
    by (simp add: assms(1,2) as_Plugin_def RunOp_Metadata Encoder_Encode_def
        Marshal_Metadata_def DefaultPlugin_Metadata_def Write_ok NewPlugin_def)
  have a: "Run (as_Plugin (NewPlugin ''demo'' ''0.1'' ''a'' ''t'' qc)) w
           = (0, w\<lparr>sink := (sink w)(os_Stdout := sink w os_Stdout
                @ encode_Metadata (Meta (NewPlugin ''demo'' ''0.1'' ''a'' ''t'' qc)) @ [CHR 0x0A])\<rparr>)"
    by (rule Run_no_error [where plugin = "as_Plugin (NewPlugin ''demo'' ''0.1'' ''a'' ''t'' qc)", OF r])
  have b: "Start h s = (Exit 0, fmt_Print (encode_Metadata (pluginMetadata s)) s)"
    by (rule Start_Metadata_default [OF assms(3,5)])
  show ?thesis
    using a b
    by (simp add: assms(4,6) fmt_Print_ok NewPlugin_def defaultProtocolVersion_def
        protocolVersion_def scenario_wire)
qed

theorem metadata_scenario_witness:
  \<open>Getenv (process_start ''METADATA'' []) ''ALBERT_OP'' = ''METADATA''
   \<and> sink_fault (process_start ''METADATA'' []) os_Stdout = None
   \<and> HookSet.Metadata no_hooks = None
   \<and> fst (Run (as_Plugin (NewPlugin ''demo'' ''0.1'' ''a'' ''t'' None))
            (process_start ''METADATA'' [])) = 0
   \<and> fst (Start no_hooks
            (SetDependencies (Slice [])
              (SetTrigger ''t''
                (SetInfo ''demo'' ''0.1'' ''a''
                  (process_start_with ''METADATA'' [] pluginMetadata_init))))) = Exit 0
   \<and> sink (snd (Start no_hooks
            (SetDependencies (Slice [])
              (SetTrigger ''t''
                (SetInfo ''demo'' ''0.1'' ''a''
                  (process_start_with ''METADATA'' [] pluginMetadata_init)))))) os_Stdout
      = ''{"iid":"org.albert.extension.external/v2.0","name":"demo","version":"0.1","author":"a","dependencies":[],"trigger":"t"}''\<close>
proof -
  let ?s = "SetDependencies (Slice [])
              (SetTrigger ''t''
                (SetInfo ''demo'' ''0.1'' ''a''
                  (process_start_with ''METADATA'' [] pluginMetadata_init)))"
  have h1: "Getenv (process_start ''METADATA'' []) ''ALBERT_OP'' = ''METADATA''"
    by (simp add: process_start_simps)
  have h2: "sink_fault (process_start ''METADATA'' []) os_Stdout = None"
    by (simp add: process_start_simps)
  have h3: "Getenv ?s ''ALBERT_OP'' = ''METADATA''"
    by (simp add: setters_frame process_start_with_simps)
  have h4: "sink_fault ?s os_Stdout = None"
    by (simp add: setters_frame process_start_with_simps)
  have h5: "HookSet.Metadata no_hooks = None"
    by (simp add: no_hooks_def)
  have h6: "pluginMetadata ?s =
           \<lparr>IID = protocolVersion, Metadata.Name = ''demo'', Version = ''0.1'', Author = ''a'',
            Dependencies = Slice [], Trigger = ''t''\<rparr>"
    by (simp add: SetInfo_def SetTrigger_def SetDependencies_def process_start_with_simps
        pluginMetadata_init_def)
  show ?thesis
    using h1 h2 h5 metadata_scenario [OF h1 h2 h3 h4 h5 h6, of None]
    by (simp add: setters_frame process_start_with_simps)
qed

text \<open>
  C6. For a command with a non-empty argument vector, \<open>NewQueryAction\<close> returns the
  action with the given name, the executable path as Command and the argument vector
  without its first element as Arguments. The current and the second revision do so
  (\<open>NewQueryAction_strips\<close>). The first revision copies the whole vector: evaluated on the
  command of the package's example, the program name stays in Arguments.
\<close>

theorem NewQueryAction_v0_keeps_argv0:
  "NewQueryAction_v0 ''Browse to Facebook''
     (Some \<lparr>Path = ''/usr/bin/google-chrome-stable'',
            Args = Slice [''google-chrome-stable'', ''www.facebook.com'']\<rparr>) =
   Inr \<lparr>QueryAction.Name = ''Browse to Facebook'', Command = ''/usr/bin/google-chrome-stable'',
        Arguments = Slice [''google-chrome-stable'', ''www.facebook.com'']\<rparr>"
  by (simp add: NewQueryAction_v0_def)

text \<open>
  C7. \<open>NewQueryAction\<close> never panics on a short argument vector and returns empty
  Arguments for an empty or one-element vector. As stated this fails: on an empty vector
  (nil or not) the slice expression \<open>cmd.Args[1:]\<close> panics.
\<close>

theorem NewQueryAction_empty_vector_panics:
  "NewQueryAction ''go'' (Some \<lparr>Path = ''/bin/true'', Args = Slice []\<rparr>) =
     Inl (slice_bounds_out_of_range 1 0)
   \<and> NewQueryAction ''go'' (Some \<lparr>Path = ''/bin/true'', Args = nil_slice\<rparr>) =
     Inl (slice_bounds_out_of_range 1 0)"
  by (simp add: NewQueryAction_def slice_from_def len_def)

text \<open>
  C7, amended. For a command whose argument vector holds exactly one element,
  \<open>NewQueryAction\<close> returns an action whose Arguments is empty; for a command whose
  argument vector is empty it panics with a slice-bounds error and returns no action.
\<close>

theorem NewQueryAction_short_vectors:
  "(len (Args c) = 1 \<longrightarrow>
      NewQueryAction name (Some c) =
        Inr \<lparr>QueryAction.Name = name, Command = Path c, Arguments = Slice []\<rparr>)
   \<and> (len (Args c) = 0 \<longrightarrow>
      NewQueryAction name (Some c) = Inl (slice_bounds_out_of_range 1 0))"
  by (cases "Args c") (auto simp add: NewQueryAction_def slice_from_def len_def)

theorem NewQueryAction_short_vectors_witness:
  "len (Args \<lparr>Path = ''/bin/true'', Args = Slice [''/bin/true'']\<rparr>) = 1
   \<and> NewQueryAction ''go'' (Some \<lparr>Path = ''/bin/true'', Args = Slice [''/bin/true'']\<rparr>) =
       Inr \<lparr>QueryAction.Name = ''go'', Command = ''/bin/true'', Arguments = Slice []\<rparr>
   \<and> len (Args \<lparr>Path = ''/bin/true'', Args = Slice []\<rparr>) = 0
   \<and> NewQueryAction ''go'' (Some \<lparr>Path = ''/bin/true'', Args = Slice []\<rparr>) =
       Inl (slice_bounds_out_of_range 1 0)"
  using NewQueryAction_short_vectors [of "\<lparr>Path = ''/bin/true'', Args = Slice [''/bin/true'']\<rparr>" "''go''"]
    NewQueryAction_short_vectors [of "\<lparr>Path = ''/bin/true'', Args = Slice []\<rparr>" "''go''"]
  by (simp add: len_def)

text \<open>
  C8. Encoding a QueryResult and reading the bytes back with a conforming JSON reader
  gives a QueryResult with the same items, the same actions in each item, the same field
  values and the same order. As stated this fails for a string that is not valid UTF-8:
  the encoder replaces the byte \<open>0xFF\<close> by the escape of U+FFFD, which reads back as the
  three bytes \<open>EF BF BD\<close>.
\<close>

theorem roundtrip_invalid_utf8:
  "decode_QueryResult
     (encode_QueryResult
        \<lparr>Items = Slice [\<lparr>ID = ''1'', QueryItem.Name = [CHR 0xFF], Description = [],
                          Completion = [], Icon = [], Actions = Slice []\<rparr>]\<rparr>)
   = Some \<lparr>Items = Slice [\<lparr>ID = ''1'', QueryItem.Name = [CHR 0xEF, CHR 0xBF, CHR 0xBD],
                            Description = [], Completion = [], Icon = [], Actions = Slice []\<rparr>]\<rparr>
   \<and> decode_QueryResult
     (encode_QueryResult
        \<lparr>Items = Slice [\<lparr>ID = ''1'', QueryItem.Name = [CHR 0xFF], Description = [],
                          Completion = [], Icon = [], Actions = Slice []\<rparr>]\<rparr>)
   \<noteq> Some \<lparr>Items = Slice [\<lparr>ID = ''1'', QueryItem.Name = [CHR 0xFF], Description = [],
                          Completion = [], Icon = [], Actions = Slice []\<rparr>]\<rparr>"
proof -
  have ff: "coerce_utf8 [CHR 0xFF] = [CHR 0xEF, CHR 0xBF, CHR 0xBD]"
    by (simp add: byte_def RuneError_def Let_def)
  have one: "coerce_utf8 ''1'' = ''1''"
    by (simp add: byte_def)
  have "decode_QueryResult
     (encode_QueryResult
        \<lparr>Items = Slice [\<lparr>ID = ''1'', QueryItem.Name = [CHR 0xFF], Description = [],
                          Completion = [], Icon = [], Actions = Slice []\<rparr>]\<rparr> @ [])
   = Some \<lparr>Items = Slice [\<lparr>ID = ''1'', QueryItem.Name = [CHR 0xEF, CHR 0xBF, CHR 0xBD],
                            Description = [], Completion = [], Icon = [], Actions = Slice []\<rparr>]\<rparr>"
    by (subst decode_encode_QueryResult)
       (simp_all add: coerce_QueryResult_def coerce_QueryItem_def map_slice_def ff one
          del: coerce_utf8.simps(2))
  then show ?thesis by simp
qed

text \<open>
  C8, amended. For every QueryResult whose strings are all valid UTF-8, encoding it (as
  \<open>json.Marshal\<close> does, or with the newline that \<open>Encoder.Encode\<close> adds) and reading the
  bytes back with the JSON reader gives the same QueryResult: the same items in the same
  order, each with the same actions in the same order and the same field values, a nil
  slice staying nil and an empty one empty.
\<close>

theorem roundtrip_valid_utf8:
  assumes "valid_QueryResult q"
  shows "decode_QueryResult (encode_QueryResult q) = Some q
         \<and> decode_QueryResult (encode_QueryResult q @ [CHR 0x0A]) = Some q"
proof -
  have a: "decode_QueryResult (encode_QueryResult q @ []) = Some (coerce_QueryResult q)"
    by (rule decode_encode_QueryResult) simp
  have b: "decode_QueryResult (encode_QueryResult q @ [CHR 0x0A]) = Some (coerce_QueryResult q)"
    by (rule decode_encode_QueryResult) (simp add: is_ws_def)
  show ?thesis
    using a b by (simp add: coerce_QueryResult_valid [OF assms])
qed

theorem roundtrip_valid_utf8_witness:
  "valid_QueryResult
     \<lparr>Items = Slice [\<lparr>ID = ''1'', QueryItem.Name = ''Open'', Description = [], Completion = [],
                      Icon = [],
                      Actions = Slice [\<lparr>QueryAction.Name = ''go'', Command = ''/bin/true'',
                                        Arguments = Slice []\<rparr>]\<rparr>]\<rparr>
   \<and> decode_QueryResult
       (encode_QueryResult
         \<lparr>Items = Slice [\<lparr>ID = ''1'', QueryItem.Name = ''Open'', Description = [], Completion = [],
                          Icon = [],
                          Actions = Slice [\<lparr>QueryAction.Name = ''go'', Command = ''/bin/true'',
                                            Arguments = Slice []\<rparr>]\<rparr>]\<rparr>)
     = Some \<lparr>Items = Slice [\<lparr>ID = ''1'', QueryItem.Name = ''Open'', Description = [],
                              Completion = [], Icon = [],
                              Actions = Slice [\<lparr>QueryAction.Name = ''go'', Command = ''/bin/true'',
                                                Arguments = Slice []\<rparr>]\<rparr>]\<rparr>"
proof -
  have v: "valid_QueryResult
     \<lparr>Items = Slice [\<lparr>ID = ''1'', QueryItem.Name = ''Open'', Description = [], Completion = [],
                      Icon = [],
                      Actions = Slice [\<lparr>QueryAction.Name = ''go'', Command = ''/bin/true'',
                                        Arguments = Slice []\<rparr>]\<rparr>]\<rparr>"
    by (simp add: valid_QueryResult_def valid_QueryItem_def valid_QueryAction_def byte_def)
  show ?thesis
    using v roundtrip_valid_utf8 [OF v] by simp
qed

text \<open>
  C9. For every operation, recognized or not, \<open>RunOp\<close> leaves the plugin it runs on as it
  was: the receiver at return is the receiver at entry, and so is the metadata that
  \<open>Metadata()\<close> reads from it, whatever the query callback does to the world.
\<close>

theorem RunOp_receiver_unchanged:
  "fst (snd (RunOp p op w)) = p
   \<and> DefaultPlugin_Metadata (fst (snd (RunOp p op w))) = DefaultPlugin_Metadata p"
  using op_cases [of op]
  by (auto simp add: RunOp_Metadata RunOp_Name RunOp_lifecycle RunOp_Query RunOp_unknown
      split: prod.split option.split)

text \<open>
  C10. \<open>NewPlugin\<close> returns a plugin whose metadata has the fixed protocol version as
  IID and an empty, non-nil list of dependencies, whose output is standard output and
  whose query callback is the one given; the wire encoding of that metadata has
  \<open>"dependencies":[]\<close>, not \<open>null\<close>.
\<close>

theorem NewPlugin_fields:
  \<open>IID (Meta (NewPlugin name version author trigger qc)) = ''org.albert.extension.external/v2.0''
   \<and> Dependencies (Meta (NewPlugin name version author trigger qc)) = Slice []
   \<and> Output (NewPlugin name version author trigger qc) = os_Stdout
   \<and> QueryCallback (NewPlugin name version author trigger qc) = qc
   \<and> encode_Metadata (Meta (NewPlugin name version author trigger qc)) =
       ''{"iid":"org.albert.extension.external/v2.0","name":'' @ appendString name
       @ '',"version":'' @ appendString version
       @ '',"author":'' @ appendString author
       @ '',"dependencies":[],"trigger":'' @ appendString trigger @ ''}''\<close>
  by (simp add: NewPlugin_def defaultProtocolVersion_def encode_Metadata_def encode_array_def
      appendString_samples)

end
